theory Spec2Isabelle
  imports Main "HOL-Library.Sublist" "HOL-Library.Word"
begin

section \<open>Go library functions used by the command engine\<close>

text \<open>
  Strings are byte lists (UTF-8). The functions below follow the Go standard library on
  the arguments the program passes to them: \<open>strings.Contains\<close>, \<open>strings.ReplaceAll\<close>
  (the same as \<open>strings.Replace\<close> with count \<open>-1\<close>: leftmost, non-overlapping matches),
  \<open>strings.SplitN(s, sep, 2)\<close> with a one-byte separator, and \<open>strings.TrimSpace\<close>.
\<close>

fun strings_Contains :: "string \<Rightarrow> string \<Rightarrow> bool" where
  "strings_Contains [] sub = (sub = [])"
| "strings_Contains (c # cs) sub = (prefix sub (c # cs) \<or> strings_Contains cs sub)"

fun replace_each :: "string \<Rightarrow> string \<Rightarrow> string \<Rightarrow> string" where
  "replace_each old new [] = []"
| "replace_each old new (c # cs) =
     (if old \<noteq> [] \<and> prefix old (c # cs)
      then new @ replace_each old new (drop (length old) (c # cs))
      else c # replace_each old new cs)"

definition strings_ReplaceAll :: "string \<Rightarrow> string \<Rightarrow> string \<Rightarrow> string" where
  "strings_ReplaceAll s old new =
     (if old = [] then new @ concat (map (\<lambda>c. c # new) s) else replace_each old new s)"

fun strings_Cut :: "string \<Rightarrow> char \<Rightarrow> (string \<times> string) option" where
  "strings_Cut [] sep = None"
| "strings_Cut (c # cs) sep =
     (if c = sep then Some ([], cs)
      else (case strings_Cut cs sep of
              None \<Rightarrow> None
            | Some (before, after) \<Rightarrow> Some (c # before, after)))"

definition strings_SplitN2 :: "string \<Rightarrow> char \<Rightarrow> string list" where
  "strings_SplitN2 s sep =
     (case strings_Cut s sep of None \<Rightarrow> [s] | Some (before, after) \<Rightarrow> [before, after])"





fun strings_Join :: "string list \<Rightarrow> string \<Rightarrow> string" where
  "strings_Join [] sep = []"
| "strings_Join [x] sep = x"
| "strings_Join (x # y # ys) sep = x @ sep @ strings_Join (y # ys) sep"

text \<open>Decimal rendering of an integer, as the verb \<open>%d\<close> prints it.\<close>

fun nat_digits :: "nat \<Rightarrow> string" where
  "nat_digits n =
     (if n < 10 then [''0123456789'' ! n]
      else nat_digits (n div 10) @ [''0123456789'' ! (n mod 10)])"

declare nat_digits.simps [simp del]

definition strconv_Itoa :: "int \<Rightarrow> string" where
  "strconv_Itoa i = (if i < 0 then CHR ''-'' # nat_digits (nat (- i)) else nat_digits (nat i))"

section \<open>Dynamically typed values\<close>

text \<open>
  A Go \<open>interface{}\<close> holding decoded JSON or YAML, a flag value or a manifest default.
  \<open>VNil\<close> is the nil interface. \<open>VInt\<close> is a Go \<open>int\<close> (a flag, a YAML integer, a
  status code); \<open>VFloat\<close> is a \<open>float64\<close>, given by its 64 bits, which is what
  \<open>encoding/json\<close> makes of every JSON number it decodes into an \<open>interface{}\<close>. A Go
  map with string keys is the association list of its entries, kept in key order (the
  order in which Go prints and marshals a map).
\<close>

datatype val =
    VNil
  | VBool bool
  | VInt int
  | VFloat "64 word"
  | VStr string
  | VList "val list"
  | VMap "(string \<times> val) list"

text \<open>
  \<open>fmt.Sprintf("%v", v)\<close>. A \<open>float64\<close> is printed in the shortest \<open>%g\<close> form
  (1000000 as \<open>1e+06\<close>); that conversion is the library's and is the parameter
  \<open>float\<close>.
\<close>

fun fmt_Sprint :: "(64 word \<Rightarrow> string) \<Rightarrow> val \<Rightarrow> string" where
  "fmt_Sprint float VNil = ''<nil>''"
| "fmt_Sprint float (VBool b) = (if b then ''true'' else ''false'')"
| "fmt_Sprint float (VInt n) = strconv_Itoa n"
| "fmt_Sprint float (VFloat x) = float x"
| "fmt_Sprint float (VStr s) = s"
| "fmt_Sprint float (VList xs) = ''['' @ strings_Join (map (fmt_Sprint float) xs) '' '' @ '']''"
| "fmt_Sprint float (VMap kvs) =
     ''map['' @ strings_Join (map (\<lambda>(k, v). k @ '':'' @ fmt_Sprint float v) kvs) '' '' @ '']''"

section \<open>The manifest (package manifest)\<close>

record Field =
  Field_Name :: string
  Field_Type :: string
  Field_Description :: string
  Field_Required :: bool
  Field_Default :: val
  Field_Enum :: "string list"
  Field_Format :: string
  Field_Positional :: bool

record Flag =
  Flag_Name :: string
  Flag_Description :: string
  Flag_Default :: bool

record Input =
  Fields :: "Field list"
  Flags :: "Flag list"

record Output =
  Output_Type :: string
  Output_Fields :: "string list"

record Command =
  Cmd_Command :: string
  Cmd_Description :: string
  Cmd_Endpoint :: string
  Cmd_Method :: string
  Cmd_Input :: "Input option"
  Cmd_Output :: "Output option"
  Cmd_ReturnsJob :: bool

record Manifest =
  Version :: string
  Commands :: "Command list"

section \<open>Configuration (package config)\<close>

record FirebaseConfig =
  APIKey :: string
  AuthDomain :: string
  ProjectID :: string

record Config =
  ConsoleURL :: string
  ConductorURL :: string
  AccountID :: string
  DefaultClusterID :: string
  RefreshToken :: string
  Firebase :: "FirebaseConfig option"

section \<open>HTTP requests and the external collaborators\<close>

text \<open>
  An outgoing request as \<open>doRequest\<close> hands it to the HTTP client: method, URL, the JSON
  document of the body when one is attached, and the three headers the code sets.
\<close>

record http_request =
  req_method :: string
  req_url :: string
  req_body :: "(string \<rightharpoonup> val) option"
  req_Authorization :: string
  req_X_CID :: "string option"
  req_Content_Type :: "string option"

text \<open>
  A response: status code, status line, and the outcome of reading the body
  (\<open>io.ReadAll\<close>: an error or the bytes).
\<close>

record http_response =
  StatusCode :: int
  Status :: string
  Body :: "string + string"

text \<open>Calls that leave the process.\<close>

datatype net_event =
    TokenRefresh string string
  | ApiRequest http_request

record CallToolParams =
  Params_Name :: string
  Params_Arguments :: "string \<rightharpoonup> val"

record Request =
  Req_JSONRPC :: string
  Req_ID :: val
  Req_Method :: string
  Req_Params :: string

text \<open>
  Everything outside the engine, as functions of their inputs. An error is \<open>Inl\<close> of its
  message. \<open>config_Load\<close> is the outcome of \<open>config.Load()\<close>; \<open>getenv_RUNOS_CLUSTER_ID\<close> is
  the environment variable read by \<open>GetDefaultClusterID\<close>; \<open>auth_RefreshIDToken\<close> returns
  the fresh ID token; \<open>http_Do\<close> stands for \<open>json.Marshal\<close> of the body,
  \<open>http.NewRequest\<close> and \<open>httpClient.Do\<close> together (an error of any of the three is
  returned unchanged by \<open>doRequest\<close>); the JSON functions are \<open>encoding/json\<close> on the
  three target types the program decodes into; \<open>fmt_float\<close> is the text that the verb
  \<open>%v\<close> prints for a \<open>float64\<close>.
\<close>

record extern =
  config_Load :: "string + Config"
  getenv_RUNOS_CLUSTER_ID :: string
  auth_RefreshIDToken :: "string \<Rightarrow> string \<Rightarrow> string + string"
  http_Do :: "http_request \<Rightarrow> string + http_response"
  json_Unmarshal :: "string \<Rightarrow> string + val"
  json_MarshalIndent :: "val \<Rightarrow> string + string"
  json_Unmarshal_Request :: "string \<Rightarrow> string + Request"
  json_Unmarshal_CallToolParams :: "string \<Rightarrow> string + CallToolParams"
  loadYAMLFile :: "string \<Rightarrow> string + (string \<rightharpoonup> val)"
  formatter_Format :: "bool \<Rightarrow> string \<Rightarrow> Output option \<Rightarrow> string option"
  fmt_float :: "64 word \<Rightarrow> string"

definition GetDefaultClusterID :: "extern \<Rightarrow> Config \<Rightarrow> string" where
  "GetDefaultClusterID w c =
     (if getenv_RUNOS_CLUSTER_ID w \<noteq> [] then getenv_RUNOS_CLUSTER_ID w
      else DefaultClusterID c)"

section \<open>The CLI adapter (package dynacmd)\<close>

subsection \<open>Flags of a cobra command\<close>

text \<open>
  The flags given on the command line, with their parsed values. A getter of the wrong
  type, or of a flag that was not given, returns the zero value (the code drops the
  getter's error); the flags read without a \<open>Changed\<close> test (\<open>cid\<close>, \<open>file\<close>,
  \<open>json\<close>) are registered with the zero value as default.
\<close>

datatype flagval = FString string | FInt int | FStringSlice "string list" | FBool bool

record cobra_Command =
  set_flags :: "string \<rightharpoonup> flagval"

definition Flags_Changed :: "cobra_Command \<Rightarrow> string \<Rightarrow> bool" where
  "Flags_Changed c n = (set_flags c n \<noteq> None)"

definition Flags_GetString :: "cobra_Command \<Rightarrow> string \<Rightarrow> string" where
  "Flags_GetString c n = (case set_flags c n of Some (FString s) \<Rightarrow> s | _ \<Rightarrow> [])"

definition Flags_GetInt :: "cobra_Command \<Rightarrow> string \<Rightarrow> int" where
  "Flags_GetInt c n = (case set_flags c n of Some (FInt i) \<Rightarrow> i | _ \<Rightarrow> 0)"

definition Flags_GetStringSlice :: "cobra_Command \<Rightarrow> string \<Rightarrow> string list" where
  "Flags_GetStringSlice c n = (case set_flags c n of Some (FStringSlice xs) \<Rightarrow> xs | _ \<Rightarrow> [])"

definition Flags_GetBool :: "cobra_Command \<Rightarrow> string \<Rightarrow> bool" where
  "Flags_GetBool c n = (case set_flags c n of Some (FBool b) \<Rightarrow> b | _ \<Rightarrow> False)"

subsection \<open>Input collection\<close>

text \<open>
  \<open>parseKeyValueTags\<close> returns \<open>[]map[string]string\<close>: one map literal per tag, with the
  entries \<open>key\<close> and \<open>value\<close>, or \<open>key\<close> alone.
\<close>

definition parseKeyValueTag :: "string \<Rightarrow> (string \<times> string) list" where
  "parseKeyValueTag tag =
     (let parts = strings_SplitN2 tag (CHR '':'')
      in if length parts = 2 then [(''key'', parts ! 0), (''value'', parts ! 1)]
         else [(''key'', parts ! 0)])"

definition parseKeyValueTags :: "string list \<Rightarrow> (string \<times> string) list list" where
  "parseKeyValueTags tags = map parseKeyValueTag tags"

definition val_of_strings :: "string list \<Rightarrow> val" where
  "val_of_strings xs = VList (map VStr xs)"

definition val_of_tags :: "(string \<times> string) list list \<Rightarrow> val" where
  "val_of_tags ts = VList (map (\<lambda>m. VMap (map (\<lambda>(k, v). (k, VStr v)) m)) ts)"

definition default_field :: "(string \<rightharpoonup> val) \<Rightarrow> Field \<Rightarrow> (string \<rightharpoonup> val)" where
  "default_field result field =
     (if Field_Default field \<noteq> VNil \<and> \<not> Field_Positional field
      then result(Field_Name field \<mapsto> Field_Default field) else result)"

definition default_flag :: "(string \<rightharpoonup> val) \<Rightarrow> Flag \<Rightarrow> (string \<rightharpoonup> val)" where
  "default_flag result flag = result(Flag_Name flag \<mapsto> VBool (Flag_Default flag))"

definition override_field ::
  "cobra_Command \<Rightarrow> (string \<rightharpoonup> val) \<Rightarrow> Field \<Rightarrow> (string \<rightharpoonup> val)" where
  "override_field cmd result field =
     (if Field_Positional field then result
      else if Flags_Changed cmd (Field_Name field) then
        (if Field_Type field = ''string''
           then result(Field_Name field \<mapsto> VStr (Flags_GetString cmd (Field_Name field)))
         else if Field_Type field = ''integer''
           then result(Field_Name field \<mapsto> VInt (Flags_GetInt cmd (Field_Name field)))
         else if Field_Type field = ''array''
           then (let v = Flags_GetStringSlice cmd (Field_Name field)
                 in if Field_Format field = ''key_value''
                    then result(Field_Name field \<mapsto> val_of_tags (parseKeyValueTags v))
                    else result(Field_Name field \<mapsto> val_of_strings v))
         else result)
      else result)"

definition override_flag ::
  "cobra_Command \<Rightarrow> (string \<rightharpoonup> val) \<Rightarrow> Flag \<Rightarrow> (string \<rightharpoonup> val)" where
  "override_flag cmd result flag =
     (if Flags_Changed cmd (Flag_Name flag)
      then result(Flag_Name flag \<mapsto> VBool (Flags_GetBool cmd (Flag_Name flag)))
      else result)"

text \<open>
  The value that \<open>override_field\<close> stores for a field whose flag was given, by the
  field's type (\<open>string\<close>, \<open>integer\<close> or \<open>array\<close>; other types store nothing).
\<close>

definition explicit_field_value :: "cobra_Command \<Rightarrow> Field \<Rightarrow> val option" where
  "explicit_field_value cmd field =
     (if Field_Type field = ''string''
        then Some (VStr (Flags_GetString cmd (Field_Name field)))
      else if Field_Type field = ''integer''
        then Some (VInt (Flags_GetInt cmd (Field_Name field)))
      else if Field_Type field = ''array''
        then (if Field_Format field = ''key_value''
              then Some (val_of_tags (parseKeyValueTags (Flags_GetStringSlice cmd (Field_Name field))))
              else Some (val_of_strings (Flags_GetStringSlice cmd (Field_Name field))))
      else None)"

text \<open>
  \<open>collectInput\<close>: defaults, then the YAML file of \<open>--file\<close> (every key of the file is
  stored, so the loop over the file's map is \<open>++\<close>), then the flags that were given.
  The positional arguments \<open>args\<close> are a parameter of the source function that it never
  reads.
\<close>

definition collectInput ::
  "extern \<Rightarrow> cobra_Command \<Rightarrow> string list \<Rightarrow> Command \<Rightarrow> string + (string \<rightharpoonup> val)" where
  "collectInput w cmd args cmdDef =
     (case Cmd_Input cmdDef of
        None \<Rightarrow> Inr Map.empty
      | Some inp \<Rightarrow>
          (let defaults = foldl default_flag (foldl default_field Map.empty (Fields inp)) (Flags inp);
               filePath = Flags_GetString cmd ''file'';
               loaded = (if filePath \<noteq> []
                         then (case loadYAMLFile w filePath of
                                 Inl err \<Rightarrow> Inl (''failed to load file: '' @ err)
                               | Inr fileData \<Rightarrow> Inr (defaults ++ fileData))
                         else Inr defaults)
           in case loaded of
                Inl err \<Rightarrow> Inl err
              | Inr result \<Rightarrow>
                  Inr (foldl (override_flag cmd)
                         (foldl (override_field cmd) result (Fields inp)) (Flags inp))))"

subsection \<open>Endpoint templating and the request\<close>

definition account_error :: string where
  "account_error = ''account ID not set: run 'runos login' first''"

definition dynacmd_cluster_error :: string where
  "dynacmd_cluster_error =
     ''cluster ID required: use --cid flag or set default with 'runos config set cid <cluster-id>''
     @ [CHR 0x27]"

definition substitute :: "string \<Rightarrow> string \<Rightarrow> string \<Rightarrow> string" where
  "substitute result name v =
     strings_ReplaceAll (strings_ReplaceAll result (''{'' @ name @ ''}'') v) ('':'' @ name) v"

definition dynacmd_positional ::
  "string list \<Rightarrow> string \<times> nat \<Rightarrow> Field \<Rightarrow> string \<times> nat" where
  "dynacmd_positional args st field =
     (case st of (result, argIndex) \<Rightarrow>
        if Field_Positional field \<and> argIndex < length args
        then (substitute result (Field_Name field) (args ! argIndex), argIndex + 1)
        else (result, argIndex))"

definition dynacmd_buildEndpoint ::
  "string \<Rightarrow> string \<Rightarrow> string list \<Rightarrow> Command \<Rightarrow> Config \<Rightarrow> string \<Rightarrow> string + string" where
  "dynacmd_buildEndpoint baseURL endpoint args cmdDef cfg cid =
     (if strings_Contains endpoint '':aid'' \<and> AccountID cfg = [] then Inl account_error
      else
        (let r1 = (if strings_Contains endpoint '':aid''
                   then strings_ReplaceAll endpoint '':aid'' (AccountID cfg) else endpoint)
         in if strings_Contains r1 '':cid'' \<and> cid = [] then Inl dynacmd_cluster_error
            else
              (let r2 = (if strings_Contains r1 '':cid''
                         then strings_ReplaceAll r1 '':cid'' cid else r1);
                   r3 = (case Cmd_Input cmdDef of
                           None \<Rightarrow> r2
                         | Some inp \<Rightarrow> fst (foldl (dynacmd_positional args) (r2, 0) (Fields inp)))
               in Inr (baseURL @ r3))))"

definition has_body_method :: "string \<Rightarrow> bool" where
  "has_body_method m = (m = ''POST'' \<or> m = ''PUT'' \<or> m = ''PATCH'')"

definition dynacmd_doRequest ::
  "extern \<Rightarrow> string \<Rightarrow> string \<Rightarrow> (string \<rightharpoonup> val) \<Rightarrow> string
     \<Rightarrow> (string + http_response) \<times> net_event list" where
  "dynacmd_doRequest w method url body token =
     (let bodyReader = (if body \<noteq> Map.empty \<and> has_body_method method then Some body else None);
          req = \<lparr> req_method = method, req_url = url, req_body = bodyReader,
                  req_Authorization = ''Bearer '' @ token,
                  req_X_CID = None,
                  req_Content_Type =
                    (if bodyReader \<noteq> None then Some ''application/json'' else None) \<rparr>
      in (http_Do w req, [ApiRequest req]))"

text \<open>\<open>getAuthToken\<close> has the same body in package dynacmd and in package mcp.\<close>

definition getAuthToken :: "extern \<Rightarrow> Config \<Rightarrow> (string + string) \<times> net_event list" where
  "getAuthToken w cfg =
     (case Firebase cfg of
        None \<Rightarrow> (Inl ''not authenticated'', [])
      | Some fb \<Rightarrow>
          if RefreshToken cfg = [] then (Inl ''not authenticated'', [])
          else (auth_RefreshIDToken w (RefreshToken cfg) (APIKey fb),
                [TokenRefresh (RefreshToken cfg) (APIKey fb)]))"

definition login_error :: string where
  "login_error = ''authentication required: run 'runos login' first''"

definition api_error :: "int \<Rightarrow> string \<Rightarrow> string" where
  "api_error code body = ''API error ('' @ strconv_Itoa code @ ''): '' @ body"

text \<open>
  \<open>Executor.Execute\<close>: the returned error (\<open>None\<close> is nil) and the calls made on the way.
\<close>

definition dynacmd_Execute ::
  "extern \<Rightarrow> string \<Rightarrow> cobra_Command \<Rightarrow> string list \<Rightarrow> Command
     \<Rightarrow> string option \<times> net_event list" where
  "dynacmd_Execute w baseURL cmd args cmdDef =
     (case config_Load w of
        Inl err \<Rightarrow> (Some (''failed to load config: '' @ err), [])
      | Inr cfg \<Rightarrow>
          (case getAuthToken w cfg of
             (Inl err, ev) \<Rightarrow> (Some login_error, ev)
           | (Inr token, ev) \<Rightarrow>
               (let flagCid = Flags_GetString cmd ''cid'';
                    cid = (if flagCid = [] then GetDefaultClusterID w cfg else flagCid)
                in case collectInput w cmd args cmdDef of
                     Inl err \<Rightarrow> (Some (''failed to collect input: '' @ err), ev)
                   | Inr body \<Rightarrow>
                       (case dynacmd_buildEndpoint baseURL (Cmd_Endpoint cmdDef) args cmdDef cfg cid of
                          Inl err \<Rightarrow> (Some err, ev)
                        | Inr endpoint \<Rightarrow>
                            (case dynacmd_doRequest w (Cmd_Method cmdDef) endpoint body token of
                               (Inl err, ev2) \<Rightarrow> (Some (''request failed: '' @ err), ev @ ev2)
                             | (Inr resp, ev2) \<Rightarrow>
                                 (case Body resp of
                                    Inl err \<Rightarrow> (Some (''failed to read response: '' @ err), ev @ ev2)
                                  | Inr respBody \<Rightarrow>
                                      if StatusCode resp \<ge> 400
                                      then (Some (api_error (StatusCode resp) respBody), ev @ ev2)
                                      else (formatter_Format w (Flags_GetBool cmd ''json'')
                                              respBody (Cmd_Output cmdDef), ev @ ev2)))))))"

text \<open>
  The leaf command's \<open>RunE\<close>: it looks for a required positional field without an
  argument before it calls \<open>Execute\<close>. \<open>showEnumOptions\<close> prints the options and returns
  nil.
\<close>

fun missing_positional :: "Field list \<Rightarrow> nat \<Rightarrow> nat \<Rightarrow> Field option" where
  "missing_positional [] argIndex n = None"
| "missing_positional (field # rest) argIndex n =
     (if Field_Positional field
      then (if argIndex \<ge> n \<and> Field_Required field then Some field
            else missing_positional rest (argIndex + 1) n)
      else missing_positional rest argIndex n)"

definition leaf_RunE ::
  "extern \<Rightarrow> string \<Rightarrow> cobra_Command \<Rightarrow> string list \<Rightarrow> Command
     \<Rightarrow> string option \<times> net_event list" where
  "leaf_RunE w baseURL c args cmdDef =
     (case (case Cmd_Input cmdDef of
              None \<Rightarrow> None
            | Some inp \<Rightarrow> missing_positional (Fields inp) 0 (length args)) of
        Some field \<Rightarrow>
          if Field_Enum field \<noteq> [] then (None, [])
          else (Some (''missing required argument: '' @ Field_Name field), [])
      | None \<Rightarrow> dynacmd_Execute w baseURL c args cmdDef)"

section \<open>The tool executor (package mcp, \<open>CommandExecutor\<close>)\<close>

record CommandExecutor =
  exec_manifest :: Manifest
  exec_baseURL :: string

definition mcp_doRequestWithCID ::
  "extern \<Rightarrow> string \<Rightarrow> string \<Rightarrow> (string \<rightharpoonup> val) option \<Rightarrow> string \<Rightarrow> string
     \<Rightarrow> (string + http_response) \<times> net_event list" where
  "mcp_doRequestWithCID w method url body token cid =
     (let bodyReader = (case body of
                          None \<Rightarrow> None
                        | Some m \<Rightarrow> if m \<noteq> Map.empty then Some m else None);
          req = \<lparr> req_method = method, req_url = url, req_body = bodyReader,
                  req_Authorization = ''Bearer '' @ token,
                  req_X_CID = (if cid \<noteq> [] then Some cid else None),
                  req_Content_Type =
                    (if bodyReader \<noteq> None then Some ''application/json'' else None) \<rparr>
      in (http_Do w req, [ApiRequest req]))"

definition mcp_doRequest ::
  "extern \<Rightarrow> string \<Rightarrow> string \<Rightarrow> (string \<rightharpoonup> val) option \<Rightarrow> string
     \<Rightarrow> (string + http_response) \<times> net_event list" where
  "mcp_doRequest w method url body token = mcp_doRequestWithCID w method url body token []"

text \<open>
  \<open>ExecuteRaw\<close>. The result map has the keys \<open>body\<close>, \<open>status\<close> and \<open>status_text\<close>.
\<close>

definition ExecuteRaw ::
  "extern \<Rightarrow> CommandExecutor \<Rightarrow> string \<Rightarrow> string \<Rightarrow> (string \<rightharpoonup> val) option \<Rightarrow> string
     \<Rightarrow> (string + string) \<times> net_event list" where
  "ExecuteRaw w e method endpoint body cid =
     (case config_Load w of
        Inl err \<Rightarrow> (Inl (''failed to load config: '' @ err), [])
      | Inr cfg \<Rightarrow>
          (case getAuthToken w cfg of
             (Inl err, ev) \<Rightarrow> (Inl login_error, ev)
           | (Inr token, ev) \<Rightarrow>
               (let url = exec_baseURL e @ endpoint
                in case mcp_doRequestWithCID w method url body token cid of
                     (Inl err, ev2) \<Rightarrow> (Inl (''request failed: '' @ err), ev @ ev2)
                   | (Inr resp, ev2) \<Rightarrow>
                       (case Body resp of
                          Inl err \<Rightarrow> (Inl (''failed to read response: '' @ err), ev @ ev2)
                        | Inr respBody \<Rightarrow>
                            (let bodyVal = (case json_Unmarshal w respBody of
                                              Inl err \<Rightarrow> VStr respBody
                                            | Inr jsonResp \<Rightarrow> jsonResp);
                                 result = VMap [(''body'', bodyVal),
                                                (''status'', VInt (StatusCode resp)),
                                                (''status_text'', VStr (Status resp))]
                             in case json_MarshalIndent w result of
                                  Inl err \<Rightarrow> (Inr respBody, ev @ ev2)
                                | Inr pretty \<Rightarrow> (Inr pretty, ev @ ev2))))))"

definition mcp_cluster_error :: string where
  "mcp_cluster_error =
     ''cluster ID required: set default with 'runos config set cid <cluster-id>''
     @ [CHR 0x27]"

definition mcp_positional ::
  "extern \<Rightarrow> (string \<rightharpoonup> val) \<Rightarrow> string \<Rightarrow> Field \<Rightarrow> string" where
  "mcp_positional w args result field =
     (if Field_Positional field
      then (case args (Field_Name field) of
              Some v \<Rightarrow> substitute result (Field_Name field) (fmt_Sprint (fmt_float w) v)
            | None \<Rightarrow> result)
      else result)"

definition mcp_buildEndpoint ::
  "extern \<Rightarrow> CommandExecutor \<Rightarrow> string \<Rightarrow> (string \<rightharpoonup> val) \<Rightarrow> Command \<Rightarrow> string + string" where
  "mcp_buildEndpoint w e endpoint args cmdDef =
     (case config_Load w of
        Inl err \<Rightarrow> Inl (''failed to load config: '' @ err)
      | Inr cfg \<Rightarrow>
          if strings_Contains endpoint '':aid'' \<and> AccountID cfg = [] then Inl account_error
          else
            (let r1 = (if strings_Contains endpoint '':aid''
                       then strings_ReplaceAll endpoint '':aid'' (AccountID cfg) else endpoint);
                 cid = GetDefaultClusterID w cfg
             in if strings_Contains r1 '':cid'' \<and> cid = [] then Inl mcp_cluster_error
                else
                  (let r2 = (if strings_Contains r1 '':cid''
                             then strings_ReplaceAll r1 '':cid'' cid else r1);
                       r3 = (case Cmd_Input cmdDef of
                               None \<Rightarrow> r2
                             | Some inp \<Rightarrow> foldl (mcp_positional w args) r2 (Fields inp))
                   in Inr (exec_baseURL e @ r3))))"

definition body_field :: "(string \<rightharpoonup> val) \<Rightarrow> (string \<rightharpoonup> val) \<Rightarrow> Field \<Rightarrow> (string \<rightharpoonup> val)" where
  "body_field args body field =
     (if Field_Positional field then body
      else (case args (Field_Name field) of
              Some v \<Rightarrow> body(Field_Name field \<mapsto> v)
            | None \<Rightarrow>
                if Field_Default field \<noteq> VNil
                then body(Field_Name field \<mapsto> Field_Default field) else body))"

definition body_flag :: "(string \<rightharpoonup> val) \<Rightarrow> (string \<rightharpoonup> val) \<Rightarrow> Flag \<Rightarrow> (string \<rightharpoonup> val)" where
  "body_flag args body flag =
     (case args (Flag_Name flag) of
        Some v \<Rightarrow> body(Flag_Name flag \<mapsto> v)
      | None \<Rightarrow> body(Flag_Name flag \<mapsto> VBool (Flag_Default flag)))"

text \<open>\<open>buildBody\<close>; \<open>None\<close> is the nil map.\<close>

definition buildBody :: "(string \<rightharpoonup> val) \<Rightarrow> Command \<Rightarrow> (string \<rightharpoonup> val) option" where
  "buildBody args cmdDef =
     (if Cmd_Method cmdDef \<noteq> ''POST'' \<and> Cmd_Method cmdDef \<noteq> ''PUT''
         \<and> Cmd_Method cmdDef \<noteq> ''PATCH'' then None
      else (case Cmd_Input cmdDef of
              None \<Rightarrow> Some Map.empty
            | Some inp \<Rightarrow>
                Some (foldl (body_flag args)
                        (foldl (body_field args) Map.empty (Fields inp)) (Flags inp))))"

definition pretty_response :: "extern \<Rightarrow> string \<Rightarrow> string" where
  "pretty_response w respBody =
     (case json_Unmarshal w respBody of
        Inl err \<Rightarrow> respBody
      | Inr jsonResp \<Rightarrow>
          (case json_MarshalIndent w jsonResp of
             Inl err \<Rightarrow> respBody
           | Inr pretty \<Rightarrow> pretty))"

definition mcp_Execute ::
  "extern \<Rightarrow> CommandExecutor \<Rightarrow> string \<Rightarrow> (string \<rightharpoonup> val)
     \<Rightarrow> (string + string) \<times> net_event list" where
  "mcp_Execute w e toolName args =
     (let cmdPath = strings_ReplaceAll toolName ''_'' ''/''
      in case find (\<lambda>cmd. Cmd_Command cmd = cmdPath) (Commands (exec_manifest e)) of
           None \<Rightarrow> (Inl (''unknown command: '' @ toolName), [])
         | Some cmdDef \<Rightarrow>
             (case config_Load w of
                Inl err \<Rightarrow> (Inl (''failed to load config: '' @ err), [])
              | Inr cfg \<Rightarrow>
                  (case getAuthToken w cfg of
                     (Inl err, ev) \<Rightarrow> (Inl login_error, ev)
                   | (Inr token, ev) \<Rightarrow>
                       (case mcp_buildEndpoint w e (Cmd_Endpoint cmdDef) args cmdDef of
                          Inl err \<Rightarrow> (Inl err, ev)
                        | Inr endpoint \<Rightarrow>
                            (let body = buildBody args cmdDef
                             in case mcp_doRequest w (Cmd_Method cmdDef) endpoint body token of
                                  (Inl err, ev2) \<Rightarrow> (Inl (''request failed: '' @ err), ev @ ev2)
                                | (Inr resp, ev2) \<Rightarrow>
                                    (case Body resp of
                                       Inl err \<Rightarrow>
                                         (Inl (''failed to read response: '' @ err), ev @ ev2)
                                     | Inr respBody \<Rightarrow>
                                         if StatusCode resp \<ge> 400
                                         then (Inl (api_error (StatusCode resp) respBody), ev @ ev2)
                                         else (Inr (pretty_response w respBody), ev @ ev2)))))))"

section \<open>The protocol server (package mcp, \<open>Server\<close>)\<close>

record Error =
  Code :: int
  Message :: string
  Data :: val

record ServerInfo =
  Info_Name :: string
  Info_Version :: string

record ToolsCapability =
  ListChanged :: bool

record Capabilities =
  Cap_Tools :: "ToolsCapability option"

record InitializeResult =
  ProtocolVersion :: string
  Init_Capabilities :: Capabilities
  Init_ServerInfo :: ServerInfo

record Property =
  Prop_Type :: string
  Prop_Description :: string
  Prop_Enum :: "string list"
  Prop_Default :: val

record InputSchema =
  Schema_Type :: string
  Schema_Properties :: "string \<rightharpoonup> Property"
  Schema_Required :: "string list"

record Tool =
  Tool_Name :: string
  Tool_Description :: string
  Tool_InputSchema :: InputSchema

record ContentBlock =
  Block_Type :: string
  Block_Text :: string

record CallToolResult =
  Content :: "ContentBlock list"
  IsError :: bool

text \<open>The dynamic \<open>Result\<close> of a response holds one of four things.\<close>

datatype rpc_result =
    Initialize_Result InitializeResult
  | ToolsList_Result "Tool list"
  | CallTool_Result CallToolResult
  | Empty_Object

record Response =
  Resp_JSONRPC :: string
  Resp_ID :: val
  Resp_Result :: "rpc_result option"
  Resp_Error :: "Error option"

record Server =
  srv_manifest :: Manifest
  srv_executor :: CommandExecutor
  srv_version :: string

definition mapType :: "string \<Rightarrow> string" where
  "mapType t = (if t = ''integer'' then ''number'' else if t = ''array'' then ''array'' else ''string'')"

definition api_request_tool :: Tool where
  "api_request_tool =
     \<lparr> Tool_Name = ''api_request'',
       Tool_Description = ''Make an arbitrary HTTP request to the RunOS API. Use this to test endpoints, debug API calls, or make requests not covered by other tools. Returns status code and response body.'',
       Tool_InputSchema =
         \<lparr> Schema_Type = ''object'',
           Schema_Properties =
             [''method'' \<mapsto>
                \<lparr> Prop_Type = ''string'',
                  Prop_Description = ''HTTP method (GET, POST, PUT, PATCH, DELETE)'',
                  Prop_Enum = [''GET'', ''POST'', ''PUT'', ''PATCH'', ''DELETE''],
                  Prop_Default = VNil \<rparr>,
              ''endpoint'' \<mapsto>
                \<lparr> Prop_Type = ''string'',
                  Prop_Description = ''API endpoint path (e.g., /api/backend/v1/osi/instance/valkey-abc123)'',
                  Prop_Enum = [], Prop_Default = VNil \<rparr>,
              ''body'' \<mapsto>
                \<lparr> Prop_Type = ''object'',
                  Prop_Description = ''Request body as JSON object (for POST/PUT/PATCH requests)'',
                  Prop_Enum = [], Prop_Default = VNil \<rparr>,
              ''cid'' \<mapsto>
                \<lparr> Prop_Type = ''string'',
                  Prop_Description = ''Cluster ID for the X-CID header (required for most API calls)'',
                  Prop_Enum = [], Prop_Default = VNil \<rparr>],
           Schema_Required = [''method'', ''endpoint'', ''cid''] \<rparr> \<rparr>"

definition field_property :: "Field \<Rightarrow> Property" where
  "field_property field =
     \<lparr> Prop_Type = mapType (Field_Type field),
       Prop_Description = Field_Description field,
       Prop_Enum = Field_Enum field,
       Prop_Default = Field_Default field \<rparr>"

definition flag_property :: "Flag \<Rightarrow> Property" where
  "flag_property flag =
     \<lparr> Prop_Type = ''boolean'',
       Prop_Description = Flag_Description flag,
       Prop_Enum = [],
       Prop_Default = VBool (Flag_Default flag) \<rparr>"

definition command_tool :: "Command \<Rightarrow> Tool" where
  "command_tool cmd =
     \<lparr> Tool_Name = strings_ReplaceAll (Cmd_Command cmd) ''/'' ''_'',
       Tool_Description = Cmd_Description cmd,
       Tool_InputSchema =
         (case Cmd_Input cmd of
            None \<Rightarrow> \<lparr> Schema_Type = ''object'', Schema_Properties = Map.empty,
                      Schema_Required = [] \<rparr>
          | Some inp \<Rightarrow>
              \<lparr> Schema_Type = ''object'',
                Schema_Properties =
                  foldl (\<lambda>props flag. props(Flag_Name flag \<mapsto> flag_property flag))
                    (foldl (\<lambda>props field. props(Field_Name field \<mapsto> field_property field))
                       Map.empty (Fields inp))
                    (Flags inp),
                Schema_Required = map Field_Name (filter Field_Required (Fields inp)) \<rparr>) \<rparr>"

definition buildTools :: "Server \<Rightarrow> Tool list" where
  "buildTools s = api_request_tool # map command_tool (Commands (srv_manifest s))"

definition handleAPIRequest ::
  "extern \<Rightarrow> Server \<Rightarrow> (string \<rightharpoonup> val) \<Rightarrow> (string + string) \<times> net_event list" where
  "handleAPIRequest w s args =
     (case (case args ''method'' of Some (VStr m) \<Rightarrow> m | _ \<Rightarrow> []) of
        [] \<Rightarrow> (Inl ''method is required'', [])
      | m # ms \<Rightarrow>
          (case (case args ''endpoint'' of Some (VStr p) \<Rightarrow> p | _ \<Rightarrow> []) of
             [] \<Rightarrow> (Inl ''endpoint is required'', [])
           | p # ps \<Rightarrow>
               (let cid = (case args ''cid'' of Some (VStr c) \<Rightarrow> c | _ \<Rightarrow> []);
                    body = (case args ''body'' of Some (VMap kvs) \<Rightarrow> Some (map_of kvs) | _ \<Rightarrow> None)
                in ExecuteRaw w (srv_executor s) (m # ms) (p # ps) body cid)))"

definition call_result :: "val \<Rightarrow> string \<Rightarrow> bool \<Rightarrow> Response" where
  "call_result i t isErr =
     \<lparr> Resp_JSONRPC = ''2.0'', Resp_ID = i,
       Resp_Result = Some (CallTool_Result
         \<lparr> Content = [\<lparr> Block_Type = ''text'', Block_Text = t \<rparr>], IsError = isErr \<rparr>),
       Resp_Error = None \<rparr>"

definition error_response :: "val \<Rightarrow> int \<Rightarrow> string \<Rightarrow> val \<Rightarrow> Response" where
  "error_response i c m d =
     \<lparr> Resp_JSONRPC = ''2.0'', Resp_ID = i, Resp_Result = None,
       Resp_Error = Some \<lparr> Code = c, Message = m, Data = d \<rparr> \<rparr>"

definition handleToolsCall :: "extern \<Rightarrow> Server \<Rightarrow> Request \<Rightarrow> Response \<times> net_event list" where
  "handleToolsCall w s req =
     (case json_Unmarshal_CallToolParams w (Req_Params req) of
        Inl err \<Rightarrow> (error_response (Req_ID req) (- 32602) ''Invalid params'' (VStr err), [])
      | Inr params \<Rightarrow>
          (case (if Params_Name params = ''api_request''
                 then handleAPIRequest w s (Params_Arguments params)
                 else mcp_Execute w (srv_executor s) (Params_Name params) (Params_Arguments params)) of
             (Inl err, ev) \<Rightarrow> (call_result (Req_ID req) err True, ev)
           | (Inr result, ev) \<Rightarrow> (call_result (Req_ID req) result False, ev)))"






record run_outcome =
  written :: "Response list"
  calls :: "net_event list"
  returned :: "string option"


section \<open>Endpoint resolution as the specification words it\<close>








section \<open>Example inputs\<close>

definition tags_field :: Field where
  "tags_field = \<lparr> Field_Name = ''tags'', Field_Type = ''array'', Field_Description = [],
      Field_Required = False, Field_Default = VNil, Field_Enum = [],
      Field_Format = ''key_value'', Field_Positional = False \<rparr>"

definition tags_cmd :: cobra_Command where
  "tags_cmd = \<lparr> set_flags = [''tags'' \<mapsto> FStringSlice [''env:prod'', ''debug'']] \<rparr>"

text \<open>
  A configured, logged-in installation, and collaborators that answer as follows at the
  inputs the examples reach: the token refresh succeeds, and the backend answers every
  request with status 404 and the body \<open>nope\<close>, which is not JSON. The decoders know
  the request lines and parameters used below and reject everything else.
\<close>

definition demo_config :: Config where
  "demo_config =
     \<lparr> ConsoleURL = ''https://console.beta.runos.com'', ConductorURL = ''http://localhost:3025'',
       AccountID = ''A'', DefaultClusterID = ''c1'', RefreshToken = ''rt'',
       Firebase = Some \<lparr> APIKey = ''key'', AuthDomain = [], ProjectID = [] \<rparr> \<rparr>"

definition demo_not_found :: http_response where
  "demo_not_found = \<lparr> StatusCode = 404, Status = ''404 Not Found'', Body = Inr ''nope'' \<rparr>"

definition demo_raw_text :: string where
  "demo_raw_text =
     ''{'' @ [CHR 0x0A] @ ''  \"body\": \"nope\",'' @ [CHR 0x0A] @ ''  \"status\": 404,''
     @ [CHR 0x0A] @ ''  \"status_text\": \"404 Not Found\"'' @ [CHR 0x0A] @ ''}''"

definition demo_MarshalIndent :: "val \<Rightarrow> string + string" where
  "demo_MarshalIndent v =
     (if v = VMap [(''body'', VStr ''nope''), (''status'', VInt 404),
                   (''status_text'', VStr ''404 Not Found'')]
      then Inr demo_raw_text else Inl ''json: unsupported value'')"

definition params_unknown :: string where
  "params_unknown = ''{\"name\":\"nosuch_tool\"}''"

definition params_raw_no_cid :: string where
  "params_raw_no_cid =
     ''{\"name\":\"api_request\",\"arguments\":{\"method\":\"GET\",\"endpoint\":\"/v1/ping\"}}''"

definition args_raw_no_cid :: "string \<rightharpoonup> val" where
  "args_raw_no_cid = [''method'' \<mapsto> VStr ''GET'', ''endpoint'' \<mapsto> VStr ''/v1/ping'']"

definition params_raw_no_method :: string where
  "params_raw_no_method =
     ''{\"name\":\"api_request\",\"arguments\":{\"endpoint\":\"/v1/ping\",\"cid\":\"c1\"}}''"

definition args_raw_no_method :: "string \<rightharpoonup> val" where
  "args_raw_no_method = [''endpoint'' \<mapsto> VStr ''/v1/ping'', ''cid'' \<mapsto> VStr ''c1'']"

definition params_status :: string where
  "params_status = ''{\"name\":\"status\"}''"

definition demo_Unmarshal_CallToolParams :: "string \<Rightarrow> string + CallToolParams" where
  "demo_Unmarshal_CallToolParams raw =
     (if raw = params_unknown
        then Inr \<lparr> Params_Name = ''nosuch_tool'', Params_Arguments = Map.empty \<rparr>
      else if raw = params_raw_no_cid
        then Inr \<lparr> Params_Name = ''api_request'', Params_Arguments = args_raw_no_cid \<rparr>
      else if raw = params_raw_no_method
        then Inr \<lparr> Params_Name = ''api_request'', Params_Arguments = args_raw_no_method \<rparr>
      else if raw = params_status
        then Inr \<lparr> Params_Name = ''status'', Params_Arguments = Map.empty \<rparr>
      else Inl ''unexpected end of JSON input'')"

text \<open>
  The numbers of the JSON texts below as \<open>encoding/json\<close> decodes them, which is as
  \<open>float64\<close>: 1, 7 and 1000000 by their bits, and what \<open>%v\<close> prints for them.
\<close>

definition float_1 :: "64 word" where
  "float_1 = 0x3FF0000000000000"

definition float_7 :: "64 word" where
  "float_7 = 0x401C000000000000"

definition float_1000000 :: "64 word" where
  "float_1000000 = 0x412E848000000000"

definition demo_float :: "64 word \<Rightarrow> string" where
  "demo_float x =
     (if x = float_1 then ''1''
      else if x = float_7 then ''7''
      else if x = float_1000000 then ''1e+06''
      else ''NaN'')"

definition line_ping :: string where
  "line_ping = ''{\"jsonrpc\":\"2.0\",\"id\":1,\"method\":\"ping\"}''"

definition bad_json_error :: string where
  "bad_json_error = ''invalid character 'b' looking for beginning of object key string''"

definition demo_Unmarshal_Request :: "string \<Rightarrow> string + Request" where
  "demo_Unmarshal_Request line =
     (if line = line_ping
        then Inr \<lparr> Req_JSONRPC = ''2.0'', Req_ID = VFloat float_1, Req_Method = ''ping'',
                   Req_Params = [] \<rparr>
      else if filter (\<lambda>c. c \<notin> set [CHR 0x20, CHR 0x09, CHR 0x0A, CHR 0x0D]) line = []
        then Inl ''unexpected end of JSON input''
      else if line = ''{bad''
        then Inl bad_json_error
      else Inl ''invalid character'')"

definition demo_extern :: extern where
  "demo_extern =
     \<lparr> config_Load = Inr demo_config,
       getenv_RUNOS_CLUSTER_ID = [],
       auth_RefreshIDToken = (\<lambda>refreshToken apiKey. Inr ''tok''),
       http_Do = (\<lambda>req. Inr demo_not_found),
       json_Unmarshal = (\<lambda>data. Inl ''invalid character''),
       json_MarshalIndent = demo_MarshalIndent,
       json_Unmarshal_Request = demo_Unmarshal_Request,
       json_Unmarshal_CallToolParams = demo_Unmarshal_CallToolParams,
       loadYAMLFile = (\<lambda>path. Inl ''no such file or directory''),
       formatter_Format = (\<lambda>jsonOutput data outputDef. None),
       fmt_float = demo_float \<rparr>"

definition status_command :: Command where
  "status_command =
     \<lparr> Cmd_Command = ''status'', Cmd_Description = ''Show the cluster status'',
       Cmd_Endpoint = ''/v1/clusters/:cid/status'', Cmd_Method = ''GET'',
       Cmd_Input = None, Cmd_Output = None, Cmd_ReturnsJob = False \<rparr>"

definition demo_manifest :: Manifest where
  "demo_manifest = \<lparr> Version = ''1'', Commands = [status_command] \<rparr>"

definition demo_executor :: CommandExecutor where
  "demo_executor = \<lparr> exec_manifest = demo_manifest, exec_baseURL = ''http://localhost:3025'' \<rparr>"

definition demo_server :: Server where
  "demo_server =
     \<lparr> srv_manifest = demo_manifest, srv_executor = demo_executor, srv_version = ''dev'' \<rparr>"

definition call_request :: "string \<Rightarrow> Request" where
  "call_request params =
     \<lparr> Req_JSONRPC = ''2.0'', Req_ID = VFloat float_7, Req_Method = ''tools/call'',
       Req_Params = params \<rparr>"

definition raw_no_cid_request :: http_request where
  "raw_no_cid_request =
     \<lparr> req_method = ''GET'', req_url = ''http://localhost:3025/v1/ping'', req_body = None,
       req_Authorization = ''Bearer tok'', req_X_CID = None, req_Content_Type = None \<rparr>"

definition status_request :: http_request where
  "status_request =
     \<lparr> req_method = ''GET'', req_url = ''http://localhost:3025/v1/clusters/c1/status'',
       req_body = None, req_Authorization = ''Bearer tok'', req_X_CID = None,
       req_Content_Type = None \<rparr>"








text \<open>A command whose path has an underscore, and two paths that differ only there.\<close>

definition users_command :: Command where
  "users_command =
     \<lparr> Cmd_Command = ''db/list_users'', Cmd_Description = ''List the database users'',
       Cmd_Endpoint = ''/v1/db/users'', Cmd_Method = ''GET'',
       Cmd_Input = None, Cmd_Output = None, Cmd_ReturnsJob = False \<rparr>"

definition users_executor :: CommandExecutor where
  "users_executor =
     \<lparr> exec_manifest = \<lparr> Version = ''1'', Commands = [users_command] \<rparr>,
       exec_baseURL = ''http://localhost:3025'' \<rparr>"

definition users_server :: Server where
  "users_server =
     \<lparr> srv_manifest = \<lparr> Version = ''1'', Commands = [users_command] \<rparr>,
       srv_executor = users_executor, srv_version = ''dev'' \<rparr>"

text \<open>
  A command with a required positional field in its endpoint and a required field for
  the body, neither with a default.
\<close>

definition name_field :: Field where
  "name_field =
     \<lparr> Field_Name = ''name'', Field_Type = ''string'', Field_Description = [],
       Field_Required = True, Field_Default = VNil, Field_Enum = [], Field_Format = [],
       Field_Positional = True \<rparr>"

definition plan_field :: Field where
  "plan_field =
     \<lparr> Field_Name = ''plan'', Field_Type = ''string'', Field_Description = [],
       Field_Required = True, Field_Default = VNil, Field_Enum = [], Field_Format = [],
       Field_Positional = False \<rparr>"

definition create_command :: Command where
  "create_command =
     \<lparr> Cmd_Command = ''services/create'', Cmd_Description = ''Create a service'',
       Cmd_Endpoint = ''/v1/clusters/:cid/services/{name}'', Cmd_Method = ''POST'',
       Cmd_Input = Some \<lparr> Fields = [name_field, plan_field], Flags = [] \<rparr>,
       Cmd_Output = None, Cmd_ReturnsJob = False \<rparr>"

definition create_executor :: CommandExecutor where
  "create_executor =
     \<lparr> exec_manifest = \<lparr> Version = ''1'', Commands = [create_command] \<rparr>,
       exec_baseURL = ''http://localhost:3025'' \<rparr>"

definition create_request :: http_request where
  "create_request =
     \<lparr> req_method = ''POST'',
       req_url = ''http://localhost:3025/v1/clusters/c1/services/{name}'',
       req_body = None, req_Authorization = ''Bearer tok'', req_X_CID = None,
       req_Content_Type = None \<rparr>"

definition no_flags :: cobra_Command where
  "no_flags = \<lparr> set_flags = Map.empty \<rparr>"

text \<open>
  A command with a positional field, a field without default, a field with a default
  and a switch.
\<close>

definition size_field :: Field where
  "size_field =
     \<lparr> Field_Name = ''size'', Field_Type = ''integer'', Field_Description = [],
       Field_Required = False, Field_Default = VInt 1, Field_Enum = [], Field_Format = [],
       Field_Positional = False \<rparr>"

definition note_field :: Field where
  "note_field =
     \<lparr> Field_Name = ''note'', Field_Type = ''string'', Field_Description = [],
       Field_Required = False, Field_Default = VNil, Field_Enum = [], Field_Format = [],
       Field_Positional = False \<rparr>"

definition public_flag :: Flag where
  "public_flag = \<lparr> Flag_Name = ''public'', Flag_Description = [], Flag_Default = False \<rparr>"

definition deploy_input :: Input where
  "deploy_input =
     \<lparr> Fields = [name_field, plan_field, size_field, note_field], Flags = [public_flag] \<rparr>"

definition deploy_command :: Command where
  "deploy_command =
     \<lparr> Cmd_Command = ''services/deploy'', Cmd_Description = ''Deploy a service'',
       Cmd_Endpoint = ''/v1/clusters/:cid/services/{name}'', Cmd_Method = ''POST'',
       Cmd_Input = Some deploy_input, Cmd_Output = None, Cmd_ReturnsJob = False \<rparr>"

definition deploy_args :: "string \<rightharpoonup> val" where
  "deploy_args = [''name'' \<mapsto> VStr ''web'', ''plan'' \<mapsto> VStr ''small'']"

definition deploy_body :: "string \<rightharpoonup> val" where
  "deploy_body = [''plan'' \<mapsto> VStr ''small'', ''size'' \<mapsto> VInt 1, ''public'' \<mapsto> VBool False]"

text \<open>
  A field \<open>x\<close> with default 1, a bulk-input file that sets \<open>x\<close> to 2, and a command line
  that sets it to 3; and the same field declared positional.
\<close>

definition x_field :: Field where
  "x_field =
     \<lparr> Field_Name = ''x'', Field_Type = ''integer'', Field_Description = [],
       Field_Required = False, Field_Default = VInt 1, Field_Enum = [], Field_Format = [],
       Field_Positional = False \<rparr>"

definition x_input :: Input where
  "x_input = \<lparr> Fields = [x_field], Flags = [public_flag] \<rparr>"

definition x_command :: Command where
  "x_command =
     \<lparr> Cmd_Command = ''things/set'', Cmd_Description = [], Cmd_Endpoint = ''/v1/things'',
       Cmd_Method = ''POST'', Cmd_Input = Some x_input, Cmd_Output = None,
       Cmd_ReturnsJob = False \<rparr>"

definition x_positional_command :: Command where
  "x_positional_command =
     \<lparr> Cmd_Command = ''things/set'', Cmd_Description = [], Cmd_Endpoint = ''/v1/things/{x}'',
       Cmd_Method = ''POST'',
       Cmd_Input = Some \<lparr> Fields = [x_field \<lparr> Field_Positional := True \<rparr>], Flags = [] \<rparr>,
       Cmd_Output = None, Cmd_ReturnsJob = False \<rparr>"

definition x_file :: "string \<rightharpoonup> val" where
  "x_file = [''x'' \<mapsto> VInt 2]"

definition file_extern :: extern where
  "file_extern =
     demo_extern \<lparr> loadYAMLFile :=
       (\<lambda>path. if path = ''in.yaml'' then Inr x_file else Inl ''no such file or directory'') \<rparr>"

definition flags_file_and_x :: cobra_Command where
  "flags_file_and_x = \<lparr> set_flags = [''file'' \<mapsto> FString ''in.yaml'', ''x'' \<mapsto> FInt 3] \<rparr>"

definition flags_file :: cobra_Command where
  "flags_file = \<lparr> set_flags = [''file'' \<mapsto> FString ''in.yaml''] \<rparr>"

definition resolved :: "string + (string \<rightharpoonup> val) \<Rightarrow> string \<Rightarrow> val option" where
  "resolved r k = (case r of Inl err \<Rightarrow> None | Inr m \<Rightarrow> m k)"






definition args_raw_no_endpoint :: "string \<rightharpoonup> val" where
  "args_raw_no_endpoint = [''method'' \<mapsto> VStr ''GET'', ''cid'' \<mapsto> VStr ''c1'']"

definition deploy_request :: http_request where
  "deploy_request =
     \<lparr> req_method = ''POST'', req_url = ''http://localhost:3025/v1/clusters/c1/services/web'',
       req_body = Some deploy_body, req_Authorization = ''Bearer tok'', req_X_CID = None,
       req_Content_Type = Some ''application/json'' \<rparr>"


text \<open>
  A command with an array field of format \<open>key_value\<close>, the tags as a tool call and a
  bulk-input file carry them (a list of strings), and as pairs.
\<close>

definition tag_command :: Command where
  "tag_command =
     \<lparr> Cmd_Command = ''services/tag'', Cmd_Description = ''Tag the services'',
       Cmd_Endpoint = ''/v1/services/tags'', Cmd_Method = ''POST'',
       Cmd_Input = Some \<lparr> Fields = [tags_field], Flags = [] \<rparr>,
       Cmd_Output = None, Cmd_ReturnsJob = False \<rparr>"

definition tag_executor :: CommandExecutor where
  "tag_executor =
     \<lparr> exec_manifest = \<lparr> Version = ''1'', Commands = [tag_command] \<rparr>,
       exec_baseURL = ''http://localhost:3025'' \<rparr>"

definition raw_tags :: val where
  "raw_tags = VList [VStr ''env:prod'', VStr ''debug'']"

definition pair_tags :: val where
  "pair_tags = VList [VMap [(''key'', VStr ''env''), (''value'', VStr ''prod'')],
                      VMap [(''key'', VStr ''debug'')]]"

definition tag_args :: "string \<rightharpoonup> val" where
  "tag_args = [''tags'' \<mapsto> raw_tags]"

definition tag_request :: "val \<Rightarrow> http_request" where
  "tag_request tags =
     \<lparr> req_method = ''POST'', req_url = ''http://localhost:3025/v1/services/tags'',
       req_body = Some [''tags'' \<mapsto> tags], req_Authorization = ''Bearer tok'',
       req_X_CID = None, req_Content_Type = Some ''application/json'' \<rparr>"

definition tags_file_extern :: extern where
  "tags_file_extern =
     demo_extern \<lparr> loadYAMLFile :=
       (\<lambda>path. if path = ''in.yaml'' then Inr tag_args else Inl ''no such file or directory'') \<rparr>"




section \<open>Shared facts\<close>




lemma handleAPIRequest_valid:
  assumes "args ''method'' = Some (VStr m)" and "m \<noteq> []"
    and "args ''endpoint'' = Some (VStr p)" and "p \<noteq> []"
  shows "handleAPIRequest w s args =
           ExecuteRaw w (srv_executor s) m p
             (case args ''body'' of Some (VMap kvs) \<Rightarrow> Some (map_of kvs) | _ \<Rightarrow> None)
             (case args ''cid'' of Some (VStr c) \<Rightarrow> c | _ \<Rightarrow> [])"
  using assms by (cases m; cases p) (simp_all add: handleAPIRequest_def)

lemma demo_getAuthToken:
  "getAuthToken demo_extern demo_config = (Inr ''tok'', [TokenRefresh ''rt'' ''key''])"
  by (simp add: getAuthToken_def demo_extern_def demo_config_def)

lemma demo_status_endpoint:
  "mcp_buildEndpoint demo_extern demo_executor ''/v1/clusters/:cid/status'' Map.empty status_command
     = Inr ''http://localhost:3025/v1/clusters/c1/status''"
  by (simp add: mcp_buildEndpoint_def demo_extern_def demo_config_def demo_executor_def
      GetDefaultClusterID_def status_command_def strings_ReplaceAll_def)

lemma getAuthToken_calls:
  "ApiRequest r \<notin> set (snd (getAuthToken w cfg))"
  by (auto simp: getAuthToken_def split: option.splits)

lemma strings_Cut_Some:
  "strings_Cut s sep = Some (a, b) \<Longrightarrow> s = a @ sep # b \<and> sep \<notin> set a"
  by (induction s arbitrary: a) (auto split: if_splits option.splits)

lemma strings_Cut_None: "(strings_Cut s sep = None) = (sep \<notin> set s)"
  by (induction s) (auto split: option.splits)

lemma demo_extern_fields:
  "config_Load demo_extern = Inr demo_config"
  "getenv_RUNOS_CLUSTER_ID demo_extern = []"
  "auth_RefreshIDToken demo_extern = (\<lambda>refreshToken apiKey. Inr ''tok'')"
  "http_Do demo_extern = (\<lambda>req. Inr demo_not_found)"
  "json_Unmarshal demo_extern = (\<lambda>data. Inl ''invalid character'')"
  "json_MarshalIndent demo_extern = demo_MarshalIndent"
  "json_Unmarshal_Request demo_extern = demo_Unmarshal_Request"
  "json_Unmarshal_CallToolParams demo_extern = demo_Unmarshal_CallToolParams"
  "loadYAMLFile demo_extern = (\<lambda>path. Inl ''no such file or directory'')"
  "formatter_Format demo_extern = (\<lambda>jsonOutput data outputDef. None)"
  "fmt_float demo_extern = demo_float"
  by (simp_all add: demo_extern_def)

text \<open>
  A loop that assigns into a map: a key that no turn writes keeps its value, and a key
  at which every turn either writes the same value or does nothing ends with that
  value, when some turn writes it.
\<close>

lemma foldl_assign_other:
  assumes "\<And>m x. x \<in> set xs \<Longrightarrow> step m x k = m k"
  shows "foldl step m xs k = m k"
  using assms by (induction xs arbitrary: m) simp_all

lemma foldl_assign_keep:
  assumes "m k = Some v"
    and "\<And>m y. y \<in> set xs \<Longrightarrow> step m y k = m k \<or> step m y k = Some v"
  shows "foldl step m xs k = Some v"
  using assms
proof (induction xs arbitrary: m)
  case Nil
  then show ?case by simp
next
  case (Cons y ys)
  from Cons.prems have "step m y k = Some v" by (metis list.set_intros(1))
  with Cons show ?case by simp
qed

lemma foldl_assign_at:
  assumes "x \<in> set xs" and "\<And>m. step m x k = Some v"
    and "\<And>m y. y \<in> set xs \<Longrightarrow> step m y k = m k \<or> step m y k = Some v"
  shows "foldl step m xs k = Some v"
proof -
  from assms(1) obtain ys zs where xs: "xs = ys @ x # zs" by (meson split_list)
  have "foldl step (step (foldl step m ys) x) zs k = Some v"
    by (rule foldl_assign_keep) (simp_all add: assms(2) assms(3) xs)
  then show ?thesis by (simp add: xs)
qed

text \<open>What distinct names give: a name belongs to one field or switch only.\<close>

lemma distinct_names:
  assumes "distinct (map Field_Name (filter (\<lambda>f. \<not> Field_Positional f) fs) @ map Flag_Name gs)"
  shows "\<And>f f'. f \<in> set fs \<Longrightarrow> f' \<in> set fs \<Longrightarrow> \<not> Field_Positional f
            \<Longrightarrow> \<not> Field_Positional f' \<Longrightarrow> Field_Name f = Field_Name f' \<Longrightarrow> f = f'"
    and "\<And>g g'. g \<in> set gs \<Longrightarrow> g' \<in> set gs \<Longrightarrow> Flag_Name g = Flag_Name g' \<Longrightarrow> g = g'"
    and "\<And>f g. f \<in> set fs \<Longrightarrow> \<not> Field_Positional f \<Longrightarrow> g \<in> set gs
            \<Longrightarrow> Field_Name f \<noteq> Flag_Name g"
proof -
  from assms have i: "inj_on Field_Name (set (filter (\<lambda>f. \<not> Field_Positional f) fs))"
    and j: "inj_on Flag_Name (set gs)"
    and d: "Field_Name ` set (filter (\<lambda>f. \<not> Field_Positional f) fs) \<inter> Flag_Name ` set gs = {}"
    by (simp_all add: distinct_map)
  show "\<And>f f'. f \<in> set fs \<Longrightarrow> f' \<in> set fs \<Longrightarrow> \<not> Field_Positional f
            \<Longrightarrow> \<not> Field_Positional f' \<Longrightarrow> Field_Name f = Field_Name f' \<Longrightarrow> f = f'"
    using i by (auto dest: inj_onD)
  show "\<And>g g'. g \<in> set gs \<Longrightarrow> g' \<in> set gs \<Longrightarrow> Flag_Name g = Flag_Name g' \<Longrightarrow> g = g'"
    using j by (auto dest: inj_onD)
  show "\<And>f g. f \<in> set fs \<Longrightarrow> \<not> Field_Positional f \<Longrightarrow> g \<in> set gs
            \<Longrightarrow> Field_Name f \<noteq> Flag_Name g"
    using d by force
qed


section \<open>Tool calls: failures are results\<close>

lemma handleToolsCall_malformed:
  assumes "json_Unmarshal_CallToolParams w (Req_Params req) = Inl err"
  shows "fst (handleToolsCall w s req)
           = error_response (Req_ID req) (- 32602) ''Invalid params'' (VStr err)"
  using assms by (simp add: handleToolsCall_def)




section \<open>Endpoint templating\<close>




















section \<open>Layered argument resolution\<close>

lemma default_field_at:
  "default_field m f k =
     (if Field_Default f \<noteq> VNil \<and> \<not> Field_Positional f \<and> Field_Name f = k
      then Some (Field_Default f) else m k)"
  by (simp add: default_field_def)

lemma default_flag_at:
  "default_flag m g k = (if Flag_Name g = k then Some (VBool (Flag_Default g)) else m k)"
  by (simp add: default_flag_def)

lemma override_field_at:
  "override_field cmd m f k =
     (if \<not> Field_Positional f \<and> Field_Name f = k \<and> Flags_Changed cmd k
         \<and> explicit_field_value cmd f \<noteq> None
      then explicit_field_value cmd f else m k)"
  by (simp add: override_field_def explicit_field_value_def Let_def)

lemma override_flag_at:
  "override_flag cmd m g k =
     (if Flag_Name g = k \<and> Flags_Changed cmd k then Some (VBool (Flags_GetBool cmd k)) else m k)"
  by (simp add: override_flag_def)

lemma defaults_field_entry:
  assumes "f \<in> set fs" and "\<not> Field_Positional f"
    and u: "\<And>f'. f' \<in> set fs \<Longrightarrow> \<not> Field_Positional f'
              \<Longrightarrow> Field_Name f' = Field_Name f \<Longrightarrow> f' = f"
    and x: "\<And>g. g \<in> set gs \<Longrightarrow> Flag_Name g \<noteq> Field_Name f"
  shows "foldl default_flag (foldl default_field Map.empty fs) gs (Field_Name f) =
           (if Field_Default f \<noteq> VNil then Some (Field_Default f) else None)"
proof -
  have "foldl default_flag (foldl default_field Map.empty fs) gs (Field_Name f)
          = foldl default_field Map.empty fs (Field_Name f)"
    by (rule foldl_assign_other) (simp add: default_flag_at x)
  also have "\<dots> = (if Field_Default f \<noteq> VNil then Some (Field_Default f) else None)"
  proof (cases "Field_Default f = VNil")
    case True
    have "foldl default_field Map.empty fs (Field_Name f) = Map.empty (Field_Name f)"
      by (rule foldl_assign_other) (use True u in \<open>auto simp: default_field_at\<close>)
    with True show ?thesis by simp
  next
    case False
    have "foldl default_field Map.empty fs (Field_Name f) = Some (Field_Default f)"
      by (rule foldl_assign_at [OF assms(1)])
         (use False assms(2) u in \<open>auto simp: default_field_at\<close>)
    with False show ?thesis by simp
  qed
  finally show ?thesis .
qed

lemma defaults_flag_entry:
  assumes "g \<in> set gs"
    and u: "\<And>g'. g' \<in> set gs \<Longrightarrow> Flag_Name g' = Flag_Name g \<Longrightarrow> g' = g"
  shows "foldl default_flag m gs (Flag_Name g) = Some (VBool (Flag_Default g))"
  by (rule foldl_assign_at [OF assms(1)]) (use u in \<open>auto simp: default_flag_at\<close>)

lemma overrides_field_entry:
  assumes "f \<in> set fs" and "\<not> Field_Positional f"
    and u: "\<And>f'. f' \<in> set fs \<Longrightarrow> \<not> Field_Positional f'
              \<Longrightarrow> Field_Name f' = Field_Name f \<Longrightarrow> f' = f"
    and x: "\<And>g. g \<in> set gs \<Longrightarrow> Flag_Name g \<noteq> Field_Name f"
  shows "foldl (override_flag cmd) (foldl (override_field cmd) m fs) gs (Field_Name f) =
           (if Flags_Changed cmd (Field_Name f) \<and> explicit_field_value cmd f \<noteq> None
            then explicit_field_value cmd f else m (Field_Name f))"
proof -
  have "foldl (override_flag cmd) (foldl (override_field cmd) m fs) gs (Field_Name f)
          = foldl (override_field cmd) m fs (Field_Name f)"
    by (rule foldl_assign_other) (simp add: override_flag_at x)
  also have "\<dots> = (if Flags_Changed cmd (Field_Name f) \<and> explicit_field_value cmd f \<noteq> None
            then explicit_field_value cmd f else m (Field_Name f))"
  proof (cases "Flags_Changed cmd (Field_Name f) \<and> explicit_field_value cmd f \<noteq> None")
    case False
    have "foldl (override_field cmd) m fs (Field_Name f) = m (Field_Name f)"
    proof (rule foldl_assign_other)
      fix m f' assume i: "f' \<in> set fs"
      show "override_field cmd m f' (Field_Name f) = m (Field_Name f)"
      proof (cases "\<not> Field_Positional f' \<and> Field_Name f' = Field_Name f")
        case True
        with u i have "f' = f" by blast
        with False show ?thesis by (auto simp: override_field_at)
      next
        case False
        then show ?thesis by (auto simp: override_field_at)
      qed
    qed
    with False show ?thesis by auto
  next
    case True
    then obtain v where v: "explicit_field_value cmd f = Some v" by auto
    have "foldl (override_field cmd) m fs (Field_Name f) = Some v"
      by (rule foldl_assign_at [OF assms(1)])
         (use True v assms(2) u in \<open>auto simp: override_field_at\<close>)
    with True v show ?thesis by simp
  qed
  finally show ?thesis .
qed

lemma overrides_flag_entry:
  assumes "g \<in> set gs"
    and u: "\<And>g'. g' \<in> set gs \<Longrightarrow> Flag_Name g' = Flag_Name g \<Longrightarrow> g' = g"
    and x: "\<And>f. f \<in> set fs \<Longrightarrow> \<not> Field_Positional f \<Longrightarrow> Field_Name f \<noteq> Flag_Name g"
  shows "foldl (override_flag cmd) (foldl (override_field cmd) m fs) gs (Flag_Name g) =
           (if Flags_Changed cmd (Flag_Name g)
            then Some (VBool (Flags_GetBool cmd (Flag_Name g))) else m (Flag_Name g))"
proof -
  have m: "foldl (override_field cmd) m fs (Flag_Name g) = m (Flag_Name g)"
    by (rule foldl_assign_other) (use x in \<open>auto simp: override_field_at\<close>)
  show ?thesis
  proof (cases "Flags_Changed cmd (Flag_Name g)")
    case False
    have "foldl (override_flag cmd) (foldl (override_field cmd) m fs) gs (Flag_Name g)
            = foldl (override_field cmd) m fs (Flag_Name g)"
      by (rule foldl_assign_other) (use False in \<open>auto simp: override_flag_at\<close>)
    with False m show ?thesis by simp
  next
    case True
    have "foldl (override_flag cmd) (foldl (override_field cmd) m fs) gs (Flag_Name g)
            = Some (VBool (Flags_GetBool cmd (Flag_Name g)))"
      by (rule foldl_assign_at [OF assms(1)]) (use True u in \<open>auto simp: override_flag_at\<close>)
    with True show ?thesis by simp
  qed
qed

lemma collectInput_result:
  assumes "Cmd_Input c = Some inp"
    and "Flags_GetString cmd ''file'' = [] \<and> file = Map.empty
         \<or> Flags_GetString cmd ''file'' \<noteq> []
            \<and> loadYAMLFile w (Flags_GetString cmd ''file'') = Inr file"
  shows "collectInput w cmd args c =
           Inr (foldl (override_flag cmd)
                  (foldl (override_field cmd)
                     (foldl default_flag (foldl default_field Map.empty (Fields inp)) (Flags inp)
                        ++ file)
                     (Fields inp))
                  (Flags inp))"
  using assms by (auto simp: collectInput_def Let_def)

lemma resolved_field:
  assumes d: "distinct (map Field_Name (filter (\<lambda>f. \<not> Field_Positional f) fs) @ map Flag_Name gs)"
    and f: "f \<in> set fs" "\<not> Field_Positional f"
  shows "foldl (override_flag cmd)
           (foldl (override_field cmd)
              (foldl default_flag (foldl default_field Map.empty fs) gs ++ file) fs) gs
           (Field_Name f) =
         (if Flags_Changed cmd (Field_Name f) \<and> explicit_field_value cmd f \<noteq> None
          then explicit_field_value cmd f
          else (case file (Field_Name f) of
                  Some v \<Rightarrow> Some v
                | None \<Rightarrow> if Field_Default f \<noteq> VNil then Some (Field_Default f) else None))"
proof -
  note n = distinct_names [OF d]
  have u: "f' = f"
    if "f' \<in> set fs" "\<not> Field_Positional f'" "Field_Name f' = Field_Name f" for f'
    by (rule n(1) [OF that(1) f(1) that(2) f(2) that(3)])
  have x: "Flag_Name g \<noteq> Field_Name f" if "g \<in> set gs" for g
    using n(3) [OF f that] by simp
  have a: "foldl default_flag (foldl default_field Map.empty fs) gs (Field_Name f)
            = (if Field_Default f \<noteq> VNil then Some (Field_Default f) else None)"
    by (rule defaults_field_entry [OF f u x])
  have b: "(foldl default_flag (foldl default_field Map.empty fs) gs ++ file) (Field_Name f)
            = (case file (Field_Name f) of
                 Some v \<Rightarrow> Some v
               | None \<Rightarrow> if Field_Default f \<noteq> VNil then Some (Field_Default f) else None)"
    unfolding map_add_def a by (cases "file (Field_Name f)") simp_all
  have c: "foldl (override_flag cmd)
             (foldl (override_field cmd)
                (foldl default_flag (foldl default_field Map.empty fs) gs ++ file) fs) gs
             (Field_Name f) =
           (if Flags_Changed cmd (Field_Name f) \<and> explicit_field_value cmd f \<noteq> None
            then explicit_field_value cmd f
            else (foldl default_flag (foldl default_field Map.empty fs) gs ++ file)
                   (Field_Name f))"
    by (rule overrides_field_entry [OF f u x])
  show ?thesis
    unfolding c b by (rule refl)
qed

lemma resolved_flag:
  assumes d: "distinct (map Field_Name (filter (\<lambda>f. \<not> Field_Positional f) fs) @ map Flag_Name gs)"
    and g: "g \<in> set gs"
  shows "foldl (override_flag cmd)
           (foldl (override_field cmd)
              (foldl default_flag (foldl default_field Map.empty fs) gs ++ file) fs) gs
           (Flag_Name g) =
         Some (if Flags_Changed cmd (Flag_Name g)
               then VBool (Flags_GetBool cmd (Flag_Name g))
               else (case file (Flag_Name g) of
                       Some v \<Rightarrow> v
                     | None \<Rightarrow> VBool (Flag_Default g)))"
proof -
  note n = distinct_names [OF d]
  have u: "g' = g" if "g' \<in> set gs" "Flag_Name g' = Flag_Name g" for g'
    by (rule n(2) [OF that(1) g that(2)])
  have x: "Field_Name f \<noteq> Flag_Name g" if "f \<in> set fs" "\<not> Field_Positional f" for f
    by (rule n(3) [OF that g])
  have a: "foldl default_flag (foldl default_field Map.empty fs) gs (Flag_Name g)
             = Some (VBool (Flag_Default g))"
    by (rule defaults_flag_entry [OF g u])
  have b: "(foldl default_flag (foldl default_field Map.empty fs) gs ++ file) (Flag_Name g)
            = Some (case file (Flag_Name g) of Some v \<Rightarrow> v | None \<Rightarrow> VBool (Flag_Default g))"
    unfolding map_add_def a by (cases "file (Flag_Name g)") simp_all
  have c: "foldl (override_flag cmd)
             (foldl (override_field cmd)
                (foldl default_flag (foldl default_field Map.empty fs) gs ++ file) fs) gs
             (Flag_Name g) =
           (if Flags_Changed cmd (Flag_Name g)
            then Some (VBool (Flags_GetBool cmd (Flag_Name g)))
            else (foldl default_flag (foldl default_field Map.empty fs) gs ++ file)
                   (Flag_Name g))"
    by (rule overrides_flag_entry [OF g u x])
  show ?thesis
    unfolding c b by simp
qed

text \<open>
  Claim C3, as the code has it. For a command whose non-positional fields and switches
  have distinct names, and whose bulk-input file (when \<open>--file\<close> is given) loads: the
  resolved map holds, for each non-positional field, the value of its flag when the flag
  was given on the command line (for the types string, integer and array), else the
  value of the file when the file has the key, else the default when it is not nil,
  else nothing; and for each switch the value of its flag when given, else the value of
  the file, else its default. With default 1, file 2 and flag 3 the value is 3; without
  the flag it is 2; without both it is 1. Positional fields are in none of the layers
  but the file's.
\<close>

theorem layered_resolution:
  assumes i: "Cmd_Input c = Some inp"
    and d: "distinct (map Field_Name (filter (\<lambda>f. \<not> Field_Positional f) (Fields inp))
                      @ map Flag_Name (Flags inp))"
    and l: "Flags_GetString cmd ''file'' = [] \<and> file = Map.empty
            \<or> Flags_GetString cmd ''file'' \<noteq> []
               \<and> loadYAMLFile w (Flags_GetString cmd ''file'') = Inr file"
  shows "\<exists>result. collectInput w cmd args c = Inr result
           \<and> (\<forall>f \<in> set (Fields inp). \<not> Field_Positional f \<longrightarrow>
                result (Field_Name f) =
                  (if Flags_Changed cmd (Field_Name f) \<and> explicit_field_value cmd f \<noteq> None
                   then explicit_field_value cmd f
                   else (case file (Field_Name f) of
                           Some v \<Rightarrow> Some v
                         | None \<Rightarrow>
                             if Field_Default f \<noteq> VNil then Some (Field_Default f) else None)))
           \<and> (\<forall>g \<in> set (Flags inp).
                result (Flag_Name g) =
                  Some (if Flags_Changed cmd (Flag_Name g)
                        then VBool (Flags_GetBool cmd (Flag_Name g))
                        else (case file (Flag_Name g) of
                                Some v \<Rightarrow> v
                              | None \<Rightarrow> VBool (Flag_Default g))))"
  by (rule exI, intro conjI ballI impI)
     (rule collectInput_result [OF i l], rule resolved_field [OF d], assumption, assumption,
      rule resolved_flag [OF d], assumption)

lemma x_names:
  "Cmd_Input x_command = Some x_input"
  "distinct (map Field_Name (filter (\<lambda>f. \<not> Field_Positional f) (Fields x_input))
             @ map Flag_Name (Flags x_input))"
  "x_field \<in> set (Fields x_input)" "\<not> Field_Positional x_field"
  "Field_Name x_field = ''x''" "Field_Default x_field = VInt 1"
  "Field_Type x_field = ''integer''"
  by (simp_all add: x_command_def x_input_def x_field_def public_flag_def)

lemma file_extern_load:
  "loadYAMLFile file_extern ''in.yaml'' = Inr x_file"
  by (simp add: file_extern_def)

theorem layered_resolution_witness:
  "Cmd_Input x_command = Some x_input
   \<and> distinct (map Field_Name (filter (\<lambda>f. \<not> Field_Positional f) (Fields x_input))
                @ map Flag_Name (Flags x_input))
   \<and> Field_Default x_field = VInt 1 \<and> x_file ''x'' = Some (VInt 2)
   \<and> set_flags flags_file_and_x ''x'' = Some (FInt 3)
   \<and> resolved (collectInput file_extern flags_file_and_x [] x_command) ''x'' = Some (VInt 3)
   \<and> resolved (collectInput file_extern flags_file [] x_command) ''x'' = Some (VInt 2)
   \<and> resolved (collectInput file_extern no_flags [] x_command) ''x'' = Some (VInt 1)"
proof -
  have a: "Flags_GetString flags_file_and_x ''file'' = [] \<and> x_file = Map.empty
            \<or> Flags_GetString flags_file_and_x ''file'' \<noteq> []
               \<and> loadYAMLFile file_extern (Flags_GetString flags_file_and_x ''file'') = Inr x_file"
    by (simp add: Flags_GetString_def flags_file_and_x_def file_extern_load)
  have b: "Flags_GetString flags_file ''file'' = [] \<and> x_file = Map.empty
            \<or> Flags_GetString flags_file ''file'' \<noteq> []
               \<and> loadYAMLFile file_extern (Flags_GetString flags_file ''file'') = Inr x_file"
    by (simp add: Flags_GetString_def flags_file_def file_extern_load)
  have c: "Flags_GetString no_flags ''file'' = [] \<and> Map.empty = (Map.empty :: string \<rightharpoonup> val)
            \<or> Flags_GetString no_flags ''file'' \<noteq> []
               \<and> loadYAMLFile file_extern (Flags_GetString no_flags ''file'') = Inr Map.empty"
    by (simp add: Flags_GetString_def no_flags_def)
  have v: "Flags_Changed flags_file_and_x ''x''"
    "explicit_field_value flags_file_and_x x_field = Some (VInt 3)"
    "\<not> Flags_Changed flags_file ''x''" "\<not> Flags_Changed no_flags ''x''"
    "x_file ''x'' = Some (VInt 2)" "set_flags flags_file_and_x ''x'' = Some (FInt 3)"
    by (simp_all add: Flags_Changed_def explicit_field_value_def Flags_GetInt_def x_names
        flags_file_and_x_def flags_file_def no_flags_def x_file_def)
  from layered_resolution [OF x_names(1) x_names(2) a, of "[]"]
  have 1: "resolved (collectInput file_extern flags_file_and_x [] x_command) ''x'' = Some (VInt 3)"
    using x_names(3-5) v by (auto simp: resolved_def)
  from layered_resolution [OF x_names(1) x_names(2) b, of "[]"]
  have 2: "resolved (collectInput file_extern flags_file [] x_command) ''x'' = Some (VInt 2)"
    using x_names(3-5) v by (auto simp: resolved_def)
  from layered_resolution [OF x_names(1) x_names(2) c, of "[]"]
  have 3: "resolved (collectInput file_extern no_flags [] x_command) ''x'' = Some (VInt 1)"
    using x_names(3-6) v by (auto simp: resolved_def)
  from 1 2 3 x_names v show ?thesis by simp
qed

text \<open>
  The claim as stated fails for a positional field: its default is not a layer, and its
  positional argument is not stored. With default 1 and nothing else the resolved map
  has no \<open>x\<close>; with file 2 and the positional argument 3 it has 2.
\<close>

theorem positional_field_is_not_layered:
  "Field_Default (x_field \<lparr> Field_Positional := True \<rparr>) = VInt 1
   \<and> resolved (collectInput file_extern no_flags [] x_positional_command) ''x'' = None
   \<and> collectInput file_extern no_flags [] x_positional_command = Inr Map.empty
   \<and> resolved (collectInput file_extern flags_file [''3''] x_positional_command) ''x''
       = Some (VInt 2)"
  by (simp add: resolved_def collectInput_def x_positional_command_def x_field_def
      default_field_def override_field_def Flags_GetString_def no_flags_def flags_file_def
      file_extern_load x_file_def)

section \<open>The request body\<close>

lemma body_field_at:
  "body_field args m f k =
     (if \<not> Field_Positional f \<and> Field_Name f = k
      then (case args k of
              Some v \<Rightarrow> Some v
            | None \<Rightarrow> if Field_Default f \<noteq> VNil then Some (Field_Default f) else m k)
      else m k)"
  by (auto simp: body_field_def split: option.splits)

lemma body_flag_at:
  "body_flag args m g k =
     (if Flag_Name g = k
      then Some (case args k of Some v \<Rightarrow> v | None \<Rightarrow> VBool (Flag_Default g))
      else m k)"
  by (auto simp: body_flag_def split: option.splits)

lemma body_fields_entry:
  assumes "f \<in> set fs" and "\<not> Field_Positional f"
    and u: "\<And>f'. f' \<in> set fs \<Longrightarrow> \<not> Field_Positional f'
              \<Longrightarrow> Field_Name f = Field_Name f' \<Longrightarrow> f = f'"
  shows "foldl (body_field args) Map.empty fs (Field_Name f) =
           (case args (Field_Name f) of
              Some v \<Rightarrow> Some v
            | None \<Rightarrow> if Field_Default f \<noteq> VNil then Some (Field_Default f) else None)"
proof (cases "args (Field_Name f) = None \<and> Field_Default f = VNil")
  case True
  have "foldl (body_field args) Map.empty fs (Field_Name f) = Map.empty (Field_Name f)"
  proof (rule foldl_assign_other)
    fix m f' assume "f' \<in> set fs"
    with u [of f'] have "f' = f" if "\<not> Field_Positional f'" "Field_Name f' = Field_Name f"
      using that by simp
    with True show "body_field args m f' (Field_Name f) = m (Field_Name f)"
      by (auto simp: body_field_at)
  qed
  with True show ?thesis by simp
next
  case False
  define v where "v = (case args (Field_Name f) of Some v \<Rightarrow> v | None \<Rightarrow> Field_Default f)"
  have "foldl (body_field args) Map.empty fs (Field_Name f) = Some v"
  proof (rule foldl_assign_at [OF assms(1)])
    fix m show "body_field args m f (Field_Name f) = Some v"
      using False assms(2) by (auto simp: body_field_at v_def split: option.splits)
  next
    fix m f' assume "f' \<in> set fs"
    with u [of f'] have "f' = f" if "\<not> Field_Positional f'" "Field_Name f' = Field_Name f"
      using that by simp
    with False show "body_field args m f' (Field_Name f) = m (Field_Name f)
                         \<or> body_field args m f' (Field_Name f) = Some v"
      by (auto simp: body_field_at v_def split: option.splits)
  qed
  with False show ?thesis by (auto simp: v_def split: option.splits)
qed

lemma body_flags_entry:
  assumes "g \<in> set gs"
    and u: "\<And>g'. g' \<in> set gs \<Longrightarrow> Flag_Name g = Flag_Name g' \<Longrightarrow> g = g'"
  shows "foldl (body_flag args) m gs (Flag_Name g) =
           Some (case args (Flag_Name g) of Some v \<Rightarrow> v | None \<Rightarrow> VBool (Flag_Default g))"
proof (rule foldl_assign_at [OF assms(1)])
  fix m show "body_flag args m g (Flag_Name g)
                = Some (case args (Flag_Name g) of Some v \<Rightarrow> v | None \<Rightarrow> VBool (Flag_Default g))"
    by (simp add: body_flag_at)
next
  fix m g' assume "g' \<in> set gs"
  with u [of g'] have "g' = g" if "Flag_Name g' = Flag_Name g"
    using that by simp
  then show "body_flag args m g' (Flag_Name g) = m (Flag_Name g)
                 \<or> body_flag args m g' (Flag_Name g)
                     = Some (case args (Flag_Name g) of
                               Some v \<Rightarrow> v | None \<Rightarrow> VBool (Flag_Default g))"
    by (auto simp: body_flag_at)
qed

lemma body_flags_other:
  assumes "\<And>g. g \<in> set gs \<Longrightarrow> Flag_Name g \<noteq> k"
  shows "foldl (body_flag args) m gs k = m k"
  by (rule foldl_assign_other) (simp add: body_flag_at assms)

lemma buildBody_entries:
  assumes m: "has_body_method (Cmd_Method c)" and i: "Cmd_Input c = Some inp"
    and d: "distinct (map Field_Name (filter (\<lambda>f. \<not> Field_Positional f) (Fields inp))
                      @ map Flag_Name (Flags inp))"
  shows "\<exists>body. buildBody args c = Some body
           \<and> (\<forall>f \<in> set (Fields inp). \<not> Field_Positional f \<longrightarrow>
                body (Field_Name f) =
                  (case args (Field_Name f) of
                     Some v \<Rightarrow> Some v
                   | None \<Rightarrow> if Field_Default f \<noteq> VNil then Some (Field_Default f) else None))
           \<and> (\<forall>g \<in> set (Flags inp).
                body (Flag_Name g) =
                  Some (case args (Flag_Name g) of
                          Some v \<Rightarrow> v | None \<Rightarrow> VBool (Flag_Default g)))"
proof -
  let ?fields = "foldl (body_field args) Map.empty (Fields inp)"
  let ?body = "foldl (body_flag args) ?fields (Flags inp)"
  from m i have b: "buildBody args c = Some ?body"
    by (auto simp: buildBody_def has_body_method_def)
  note n = distinct_names [OF d]
  have "?body (Field_Name f) =
          (case args (Field_Name f) of
             Some v \<Rightarrow> Some v
           | None \<Rightarrow> if Field_Default f \<noteq> VNil then Some (Field_Default f) else None)"
    if "f \<in> set (Fields inp)" and "\<not> Field_Positional f" for f
  proof -
    from that n(3) have "?body (Field_Name f) = ?fields (Field_Name f)"
      by (intro body_flags_other) metis
    also from that n(1) have "\<dots> = (case args (Field_Name f) of
             Some v \<Rightarrow> Some v
           | None \<Rightarrow> if Field_Default f \<noteq> VNil then Some (Field_Default f) else None)"
      by (intro body_fields_entry) auto
    finally show ?thesis .
  qed
  moreover have "?body (Flag_Name g) =
          Some (case args (Flag_Name g) of Some v \<Rightarrow> v | None \<Rightarrow> VBool (Flag_Default g))"
    if "g \<in> set (Flags inp)" for g
    using that n(2) by (intro body_flags_entry) auto
  ultimately show ?thesis using b by blast
qed

lemma mcp_doRequest_body:
  "snd (mcp_doRequest w m url body token) =
     [ApiRequest \<lparr> req_method = m, req_url = url,
        req_body = (case body of None \<Rightarrow> None
                    | Some b \<Rightarrow> if b \<noteq> Map.empty then Some b else None),
        req_Authorization = ''Bearer '' @ token, req_X_CID = None,
        req_Content_Type = (case body of None \<Rightarrow> None
                    | Some b \<Rightarrow> if b \<noteq> Map.empty then Some ''application/json'' else None) \<rparr>]"
  by (simp add: mcp_doRequest_def mcp_doRequestWithCID_def Let_def split: option.splits)

lemma dynacmd_doRequest_body:
  "snd (dynacmd_doRequest w m url b token) =
     [ApiRequest \<lparr> req_method = m, req_url = url,
        req_body = (if b \<noteq> Map.empty \<and> has_body_method m then Some b else None),
        req_Authorization = ''Bearer '' @ token, req_X_CID = None,
        req_Content_Type = (if b \<noteq> Map.empty \<and> has_body_method m
                            then Some ''application/json'' else None) \<rparr>]"
  by (simp add: dynacmd_doRequest_def Let_def)

text \<open>
  Claim C4. For a command with method POST, PUT or PATCH whose non-positional fields
  and switches have distinct names, \<open>buildBody\<close> returns a body that holds, for each
  non-positional field, the argument when there is one, else the default when it is not
  nil, else nothing; and for each switch the argument when there is one, else its
  default. The request carries a non-empty body as it is. For GET and DELETE
  \<open>buildBody\<close> returns the nil map, and neither \<open>doRequest\<close> (tool executor and CLI)
  attaches a body.
\<close>

theorem body_assembly:
  "(has_body_method (Cmd_Method c) \<and> Cmd_Input c = Some inp
      \<and> distinct (map Field_Name (filter (\<lambda>f. \<not> Field_Positional f) (Fields inp))
                   @ map Flag_Name (Flags inp))
    \<longrightarrow> (\<exists>body. buildBody args c = Some body
           \<and> (\<forall>f \<in> set (Fields inp). \<not> Field_Positional f \<longrightarrow>
                body (Field_Name f) =
                  (case args (Field_Name f) of
                     Some v \<Rightarrow> Some v
                   | None \<Rightarrow> if Field_Default f \<noteq> VNil then Some (Field_Default f) else None))
           \<and> (\<forall>g \<in> set (Flags inp).
                body (Flag_Name g) =
                  Some (case args (Flag_Name g) of
                          Some v \<Rightarrow> v | None \<Rightarrow> VBool (Flag_Default g)))
           \<and> (body \<noteq> Map.empty \<longrightarrow>
                (\<forall>r. ApiRequest r \<in> set (snd (mcp_doRequest w (Cmd_Method c) url
                                                 (buildBody args c) token))
                   \<longrightarrow> req_body r = Some body))))
   \<and> (Cmd_Method c = ''GET'' \<or> Cmd_Method c = ''DELETE''
    \<longrightarrow> buildBody args c = None
        \<and> (\<forall>r. ApiRequest r \<in> set (snd (mcp_doRequest w (Cmd_Method c) url
                                           (buildBody args c) token))
             \<longrightarrow> req_body r = None)
        \<and> (\<forall>r. ApiRequest r \<in> set (snd (dynacmd_doRequest w (Cmd_Method c) url b token))
             \<longrightarrow> req_body r = None))
   \<and> (has_body_method (Cmd_Method c) \<and> b \<noteq> Map.empty
    \<longrightarrow> (\<forall>r. ApiRequest r \<in> set (snd (dynacmd_doRequest w (Cmd_Method c) url b token))
             \<longrightarrow> req_body r = Some b))"
proof (intro conjI impI)
  assume a: "has_body_method (Cmd_Method c) \<and> Cmd_Input c = Some inp
      \<and> distinct (map Field_Name (filter (\<lambda>f. \<not> Field_Positional f) (Fields inp))
                   @ map Flag_Name (Flags inp))"
  then obtain body where b: "buildBody args c = Some body"
    and f: "\<forall>f \<in> set (Fields inp). \<not> Field_Positional f \<longrightarrow>
                body (Field_Name f) =
                  (case args (Field_Name f) of
                     Some v \<Rightarrow> Some v
                   | None \<Rightarrow> if Field_Default f \<noteq> VNil then Some (Field_Default f) else None)"
    and g: "\<forall>g \<in> set (Flags inp).
                body (Flag_Name g) =
                  Some (case args (Flag_Name g) of
                          Some v \<Rightarrow> v | None \<Rightarrow> VBool (Flag_Default g))"
    using buildBody_entries [of c inp args] by blast
  have "body \<noteq> Map.empty \<longrightarrow>
          (\<forall>r. ApiRequest r \<in> set (snd (mcp_doRequest w (Cmd_Method c) url
                                          (buildBody args c) token))
             \<longrightarrow> req_body r = Some body)"
    by (simp add: b mcp_doRequest_body)
  with b f g show "\<exists>body. buildBody args c = Some body
           \<and> (\<forall>f \<in> set (Fields inp). \<not> Field_Positional f \<longrightarrow>
                body (Field_Name f) =
                  (case args (Field_Name f) of
                     Some v \<Rightarrow> Some v
                   | None \<Rightarrow> if Field_Default f \<noteq> VNil then Some (Field_Default f) else None))
           \<and> (\<forall>g \<in> set (Flags inp).
                body (Flag_Name g) =
                  Some (case args (Flag_Name g) of
                          Some v \<Rightarrow> v | None \<Rightarrow> VBool (Flag_Default g)))
           \<and> (body \<noteq> Map.empty \<longrightarrow>
                (\<forall>r. ApiRequest r \<in> set (snd (mcp_doRequest w (Cmd_Method c) url
                                                 (buildBody args c) token))
                   \<longrightarrow> req_body r = Some body))"
    by blast
next
  assume a: "Cmd_Method c = ''GET'' \<or> Cmd_Method c = ''DELETE''"
  then show n: "buildBody args c = None" by (auto simp: buildBody_def)
  show "\<forall>r. ApiRequest r \<in> set (snd (mcp_doRequest w (Cmd_Method c) url
                                           (buildBody args c) token))
             \<longrightarrow> req_body r = None"
    by (simp add: n mcp_doRequest_body)
  from a show "\<forall>r. ApiRequest r \<in> set (snd (dynacmd_doRequest w (Cmd_Method c) url b token))
             \<longrightarrow> req_body r = None"
    by (auto simp: dynacmd_doRequest_body has_body_method_def)
next
  assume "has_body_method (Cmd_Method c) \<and> b \<noteq> Map.empty"
  then show "\<forall>r. ApiRequest r \<in> set (snd (dynacmd_doRequest w (Cmd_Method c) url b token))
             \<longrightarrow> req_body r = Some b"
    by (simp add: dynacmd_doRequest_body)
qed

theorem body_assembly_witness:
  "has_body_method (Cmd_Method deploy_command)
   \<and> Cmd_Input deploy_command = Some deploy_input
   \<and> distinct (map Field_Name (filter (\<lambda>f. \<not> Field_Positional f) (Fields deploy_input))
                @ map Flag_Name (Flags deploy_input))
   \<and> buildBody deploy_args deploy_command = Some deploy_body
   \<and> deploy_body ''name'' = None
   \<and> deploy_body ''plan'' = Some (VStr ''small'')
   \<and> deploy_body ''size'' = Some (VInt 1)
   \<and> deploy_body ''note'' = None
   \<and> deploy_body ''public'' = Some (VBool False)
   \<and> deploy_body \<noteq> Map.empty
   \<and> snd (dynacmd_doRequest demo_extern (Cmd_Method deploy_command)
             ''http://localhost:3025/v1/clusters/c1/services/web'' deploy_body ''tok'')
       = [ApiRequest deploy_request]
   \<and> req_body deploy_request = Some deploy_body
   \<and> Cmd_Method status_command = ''GET''
   \<and> buildBody Map.empty status_command = None"
proof -
  have h: "has_body_method (Cmd_Method deploy_command)
      \<and> Cmd_Input deploy_command = Some deploy_input
      \<and> distinct (map Field_Name (filter (\<lambda>f. \<not> Field_Positional f) (Fields deploy_input))
                   @ map Flag_Name (Flags deploy_input))"
    by (simp add: deploy_command_def deploy_input_def has_body_method_def name_field_def
        plan_field_def size_field_def note_field_def public_flag_def)
  have g: "Cmd_Method status_command = ''GET'' \<or> Cmd_Method status_command = ''DELETE''"
    by (simp add: status_command_def)
  have b: "buildBody deploy_args deploy_command = Some deploy_body"
    by (simp add: buildBody_def deploy_command_def deploy_input_def body_field_def body_flag_def
        name_field_def plan_field_def size_field_def note_field_def public_flag_def
        deploy_args_def deploy_body_def)
  have e: "deploy_body ''name'' = None" "deploy_body ''plan'' = Some (VStr ''small'')"
    "deploy_body ''size'' = Some (VInt 1)" "deploy_body ''note'' = None"
    "deploy_body ''public'' = Some (VBool False)" "deploy_body \<noteq> Map.empty"
    by (simp_all add: deploy_body_def)
  have k: "has_body_method (Cmd_Method deploy_command) \<and> deploy_body \<noteq> Map.empty"
    using h e by simp
  have q: "snd (dynacmd_doRequest demo_extern (Cmd_Method deploy_command)
             ''http://localhost:3025/v1/clusters/c1/services/web'' deploy_body ''tok'')
       = [ApiRequest deploy_request]"
    using k by (simp add: dynacmd_doRequest_body deploy_request_def deploy_command_def)
  then have i: "ApiRequest deploy_request
       \<in> set (snd (dynacmd_doRequest demo_extern (Cmd_Method deploy_command)
             ''http://localhost:3025/v1/clusters/c1/services/web'' deploy_body ''tok''))"
    by simp
  from body_assembly [where c = deploy_command and inp = deploy_input and args = deploy_args,
         THEN conjunct1, rule_format, OF h]
       body_assembly [where c = status_command and args = Map.empty,
         THEN conjunct2, THEN conjunct1, rule_format, OF g, THEN conjunct1]
       body_assembly [where c = deploy_command and b = deploy_body and w = demo_extern
           and url = "''http://localhost:3025/v1/clusters/c1/services/web''" and token = "''tok''",
         THEN conjunct2, THEN conjunct2, rule_format, OF k i]
       h b e g q
  show ?thesis by (simp add: status_command_def)
qed

section \<open>Required values\<close>

text \<open>
  Claim C5 at a tool call without arguments, for a command with a required positional
  field \<open>name\<close> in its endpoint and a required body field \<open>plan\<close>. Neither
  \<open>buildEndpoint\<close> nor \<open>buildBody\<close> of the tool executor fails: the placeholder \<open>{name}\<close>
  stays in the URL, the body is empty, and the request is sent. On the command line the
  same invocation stops in \<open>RunE\<close> with \<open>missing required argument: name\<close> before any
  call.
\<close>

theorem required_values_are_dropped:
  "Field_Required name_field \<and> Field_Required plan_field
   \<and> mcp_buildEndpoint demo_extern create_executor (Cmd_Endpoint create_command)
         Map.empty create_command
       = Inr ''http://localhost:3025/v1/clusters/c1/services/{name}''
   \<and> buildBody Map.empty create_command = Some Map.empty
   \<and> mcp_Execute demo_extern create_executor ''services_create'' Map.empty
       = (Inl ''API error (404): nope'', [TokenRefresh ''rt'' ''key'', ApiRequest create_request])
   \<and> leaf_RunE demo_extern ''http://localhost:3025'' no_flags [] create_command
       = (Some ''missing required argument: name'', [])"
proof -
  have e: "mcp_buildEndpoint demo_extern create_executor ''/v1/clusters/:cid/services/{name}''
             Map.empty create_command
           = Inr ''http://localhost:3025/v1/clusters/c1/services/{name}''"
    by (simp add: mcp_buildEndpoint_def demo_extern_fields demo_config_def
        GetDefaultClusterID_def create_command_def create_executor_def strings_ReplaceAll_def
        mcp_positional_def name_field_def plan_field_def)
  have b: "buildBody Map.empty create_command = Some Map.empty"
    by (simp add: buildBody_def create_command_def body_field_def name_field_def plan_field_def)
  have digits: "strconv_Itoa 404 = ''404''"
    by (simp add: strconv_Itoa_def nat_digits.simps)
  have f: "find (\<lambda>cmd. Cmd_Command cmd = strings_ReplaceAll ''services_create'' ''_'' ''/'')
             (Commands (exec_manifest create_executor)) = Some create_command"
    by (simp add: create_executor_def create_command_def strings_ReplaceAll_def)
  have c: "Cmd_Endpoint create_command = ''/v1/clusters/:cid/services/{name}''"
    "Cmd_Method create_command = ''POST''"
    by (simp_all add: create_command_def)
  have x: "mcp_Execute demo_extern create_executor ''services_create'' Map.empty
       = (Inl ''API error (404): nope'', [TokenRefresh ''rt'' ''key'', ApiRequest create_request])"
    by (simp add: mcp_Execute_def f c e b demo_extern_fields demo_getAuthToken mcp_doRequest_def
        mcp_doRequestWithCID_def create_request_def demo_not_found_def api_error_def digits)
  have l: "leaf_RunE demo_extern ''http://localhost:3025'' no_flags [] create_command
       = (Some ''missing required argument: name'', [])"
    by (simp add: leaf_RunE_def create_command_def name_field_def plan_field_def)
  from e b x l c show ?thesis
    by (simp add: name_field_def plan_field_def)
qed

section \<open>Key-value tags\<close>

lemma parseKeyValueTag_colon:
  assumes "CHR '':'' \<in> set t"
  shows "\<exists>k v. t = k @ '':'' @ v \<and> CHR '':'' \<notin> set k
           \<and> parseKeyValueTag t = [(''key'', k), (''value'', v)]"
proof -
  from assms obtain a b where c: "strings_Cut t (CHR '':'') = Some (a, b)"
    using strings_Cut_None [of t "CHR '':''"] by (cases "strings_Cut t (CHR '':'')") auto
  from strings_Cut_Some [OF c] have "t = a @ '':'' @ b" and "CHR '':'' \<notin> set a" by simp_all
  moreover from c have "parseKeyValueTag t = [(''key'', a), (''value'', b)]"
    by (simp add: parseKeyValueTag_def strings_SplitN2_def)
  ultimately show ?thesis by blast
qed

lemma parseKeyValueTag_plain:
  "CHR '':'' \<notin> set t \<Longrightarrow> parseKeyValueTag t = [(''key'', t)]"
  using strings_Cut_None [of t "CHR '':''"]
  by (simp add: parseKeyValueTag_def strings_SplitN2_def)

lemma override_field_key_value:
  "\<not> Field_Positional f \<Longrightarrow> Field_Type f = ''array'' \<Longrightarrow> Field_Format f = ''key_value''
   \<Longrightarrow> set_flags cmd (Field_Name f) = Some (FStringSlice tags)
   \<Longrightarrow> override_field cmd result f (Field_Name f) = Some (val_of_tags (parseKeyValueTags tags))"
  by (simp add: override_field_def Flags_Changed_def Flags_GetStringSlice_def)

text \<open>
  \<open>parseKeyValueTags\<close> works token by token and keeps the order: a token with a colon
  becomes the map with \<open>key\<close> and \<open>value\<close>, split at the first colon (the key has no
  colon); a token without a colon becomes the map with \<open>key\<close> alone.
\<close>

lemma parseKeyValueTags_tokens:
  "length (parseKeyValueTags tags) = length tags"
  "i < length tags \<Longrightarrow> CHR '':'' \<in> set (tags ! i)
   \<Longrightarrow> \<exists>k v. tags ! i = k @ '':'' @ v \<and> CHR '':'' \<notin> set k
         \<and> parseKeyValueTags tags ! i = [(''key'', k), (''value'', v)]"
  "i < length tags \<Longrightarrow> CHR '':'' \<notin> set (tags ! i)
   \<Longrightarrow> parseKeyValueTags tags ! i = [(''key'', tags ! i)]"
proof -
  show "length (parseKeyValueTags tags) = length tags" by (simp add: parseKeyValueTags_def)
next
  assume "i < length tags" and "CHR '':'' \<in> set (tags ! i)"
  then show "\<exists>k v. tags ! i = k @ '':'' @ v \<and> CHR '':'' \<notin> set k
              \<and> parseKeyValueTags tags ! i = [(''key'', k), (''value'', v)]"
    using parseKeyValueTag_colon [of "tags ! i"] by (simp add: parseKeyValueTags_def)
next
  assume "i < length tags" and "CHR '':'' \<notin> set (tags ! i)"
  then show "parseKeyValueTags tags ! i = [(''key'', tags ! i)]"
    by (simp add: parseKeyValueTags_def parseKeyValueTag_plain)
qed

lemma tag_values:
  "val_of_tags (parseKeyValueTags [''env:prod'', ''debug'']) = pair_tags"
  "val_of_strings [''env:prod'', ''debug''] = raw_tags"
  by (simp_all add: val_of_tags_def val_of_strings_def parseKeyValueTags_def
      parseKeyValueTag_def strings_SplitN2_def pair_tags_def raw_tags_def)

lemma tag_command_fields:
  "Cmd_Endpoint tag_command = ''/v1/services/tags''"
  "Cmd_Method tag_command = ''POST''"
  "Cmd_Input tag_command = Some \<lparr> Fields = [tags_field], Flags = [] \<rparr>"
  "Cmd_Output tag_command = None"
  by (simp_all add: tag_command_def)

lemma tags_file_extern_fields:
  "config_Load tags_file_extern = Inr demo_config"
  "getenv_RUNOS_CLUSTER_ID tags_file_extern = []"
  "http_Do tags_file_extern = (\<lambda>req. Inr demo_not_found)"
  "loadYAMLFile tags_file_extern ''in.yaml'' = Inr tag_args"
  "getAuthToken tags_file_extern demo_config = (Inr ''tok'', [TokenRefresh ''rt'' ''key''])"
  by (simp_all add: tags_file_extern_def demo_extern_def getAuthToken_def demo_config_def)

lemma tag_endpoint:
  "dynacmd_buildEndpoint ''http://localhost:3025'' ''/v1/services/tags'' [] tag_command cfg cid
     = Inr ''http://localhost:3025/v1/services/tags''"
  "mcp_buildEndpoint demo_extern tag_executor ''/v1/services/tags'' tag_args tag_command
     = Inr ''http://localhost:3025/v1/services/tags''"
  by (simp_all add: dynacmd_buildEndpoint_def mcp_buildEndpoint_def tag_command_fields
      dynacmd_positional_def mcp_positional_def tags_field_def demo_extern_fields
      tag_executor_def)

text \<open>
  Claim C6 at the tags \<open>env:prod\<close>, \<open>debug\<close> for an array field of format \<open>key_value\<close>.
  Given with the field's flag on the command line, \<open>collectInput\<close> transforms them and
  the request carries \<open>[{key: env, value: prod}, {key: debug}]\<close>. Given as the argument
  of a tool call, \<open>buildBody\<close> stores the argument as it is and the request carries the
  two strings. Given in the bulk-input file, \<open>collectInput\<close> stores the file's value as
  it is and the request carries the two strings as well.
\<close>

theorem keyValue_tags_only_parsed_from_flags:
  "Field_Type tags_field = ''array'' \<and> Field_Format tags_field = ''key_value''
   \<and> pair_tags = val_of_tags (parseKeyValueTags [''env:prod'', ''debug''])
   \<and> raw_tags = val_of_strings [''env:prod'', ''debug'']
   \<and> raw_tags \<noteq> pair_tags
   \<and> set_flags tags_cmd ''tags'' = Some (FStringSlice [''env:prod'', ''debug''])
   \<and> collectInput demo_extern tags_cmd [] tag_command = Inr [''tags'' \<mapsto> pair_tags]
   \<and> dynacmd_Execute demo_extern ''http://localhost:3025'' tags_cmd [] tag_command
       = (Some ''API error (404): nope'',
          [TokenRefresh ''rt'' ''key'', ApiRequest (tag_request pair_tags)])
   \<and> tag_args ''tags'' = Some raw_tags
   \<and> buildBody tag_args tag_command = Some [''tags'' \<mapsto> raw_tags]
   \<and> mcp_Execute demo_extern tag_executor ''services_tag'' tag_args
       = (Inl ''API error (404): nope'',
          [TokenRefresh ''rt'' ''key'', ApiRequest (tag_request raw_tags)])
   \<and> loadYAMLFile tags_file_extern ''in.yaml'' = Inr tag_args
   \<and> collectInput tags_file_extern flags_file [] tag_command = Inr [''tags'' \<mapsto> raw_tags]
   \<and> dynacmd_Execute tags_file_extern ''http://localhost:3025'' flags_file [] tag_command
       = (Some ''API error (404): nope'',
          [TokenRefresh ''rt'' ''key'', ApiRequest (tag_request raw_tags)])"
proof -
  have digits: "strconv_Itoa 404 = ''404''"
    by (simp add: strconv_Itoa_def nat_digits.simps)
  have ne: "raw_tags \<noteq> pair_tags"
    by (simp add: raw_tags_def pair_tags_def)
  have fl: "Flags_GetString tags_cmd ''file'' = []" "Flags_GetString tags_cmd ''cid'' = []"
    "Flags_Changed tags_cmd ''tags''"
    "Flags_GetStringSlice tags_cmd ''tags'' = [''env:prod'', ''debug'']"
    "set_flags tags_cmd ''tags'' = Some (FStringSlice [''env:prod'', ''debug''])"
    "Flags_GetString flags_file ''file'' = ''in.yaml''" "Flags_GetString flags_file ''cid'' = []"
    "\<not> Flags_Changed flags_file ''tags''"
    by (simp_all add: Flags_GetString_def Flags_Changed_def Flags_GetStringSlice_def
        tags_cmd_def flags_file_def)
  have c1: "collectInput demo_extern tags_cmd [] tag_command = Inr [''tags'' \<mapsto> pair_tags]"
    by (simp add: collectInput_def tag_command_fields fl default_field_def override_field_def
        tags_field_def tag_values)
  have c2: "collectInput tags_file_extern flags_file [] tag_command
              = Inr [''tags'' \<mapsto> raw_tags]"
    by (simp add: collectInput_def tag_command_fields fl default_field_def override_field_def
        tags_field_def tags_file_extern_fields tag_args_def)
  have b: "buildBody tag_args tag_command = Some [''tags'' \<mapsto> raw_tags]"
    by (simp add: buildBody_def tag_command_fields body_field_def tags_field_def tag_args_def)
  have nonempty: "[''tags'' \<mapsto> v] \<noteq> Map.empty" for v :: val
    by simp
  have x1: "dynacmd_Execute demo_extern ''http://localhost:3025'' tags_cmd [] tag_command
       = (Some ''API error (404): nope'',
          [TokenRefresh ''rt'' ''key'', ApiRequest (tag_request pair_tags)])"
    by (simp add: dynacmd_Execute_def demo_extern_fields demo_getAuthToken c1 fl
        tag_command_fields tag_endpoint dynacmd_doRequest_def has_body_method_def
        tag_request_def demo_not_found_def api_error_def digits)
  have x2: "dynacmd_Execute tags_file_extern ''http://localhost:3025'' flags_file [] tag_command
       = (Some ''API error (404): nope'',
          [TokenRefresh ''rt'' ''key'', ApiRequest (tag_request raw_tags)])"
    by (simp add: dynacmd_Execute_def tags_file_extern_fields c2 fl
        tag_command_fields tag_endpoint dynacmd_doRequest_def has_body_method_def
        tag_request_def demo_not_found_def api_error_def digits)
  have f: "find (\<lambda>cmd. Cmd_Command cmd = strings_ReplaceAll ''services_tag'' ''_'' ''/'')
             (Commands (exec_manifest tag_executor)) = Some tag_command"
    by (simp add: tag_executor_def tag_command_def strings_ReplaceAll_def)
  have x3: "mcp_Execute demo_extern tag_executor ''services_tag'' tag_args
       = (Inl ''API error (404): nope'',
          [TokenRefresh ''rt'' ''key'', ApiRequest (tag_request raw_tags)])"
    by (simp add: mcp_Execute_def f tag_command_fields tag_endpoint b demo_extern_fields
        demo_getAuthToken mcp_doRequest_def mcp_doRequestWithCID_def tag_request_def
        demo_not_found_def api_error_def digits)
  have a: "tag_args ''tags'' = Some raw_tags"
    by (simp add: tag_args_def)
  from ne c1 c2 b x1 x2 x3 a fl(5) tag_values tags_file_extern_fields(4) show ?thesis
    by (simp add: tags_field_def)
qed

section \<open>Tool names and command paths\<close>

lemma replace_each_char:
  "replace_each [a] [b] s = map (\<lambda>c. if c = a then b else c) s"
  by (induction s) auto

lemma tool_name_map:
  "Tool_Name (command_tool cmd)
     = map (\<lambda>c. if c = CHR ''/'' then CHR ''_'' else c) (Cmd_Command cmd)"
  by (simp add: command_tool_def strings_ReplaceAll_def replace_each_char)

lemma tool_name_roundtrip:
  assumes "CHR ''_'' \<notin> set p"
  shows "strings_ReplaceAll (strings_ReplaceAll p ''/'' ''_'') ''_'' ''/'' = p"
proof -
  from assms have "map ((\<lambda>c. if c = CHR ''_'' then CHR ''/'' else c)
                     \<circ> (\<lambda>c. if c = CHR ''/'' then CHR ''_'' else c)) p = p"
    by (induction p) auto
  then show ?thesis by (simp add: strings_ReplaceAll_def replace_each_char)
qed

lemma tool_name_injective:
  assumes "CHR ''_'' \<notin> set p" and "CHR ''_'' \<notin> set q"
    and "strings_ReplaceAll p ''/'' ''_'' = strings_ReplaceAll q ''/'' ''_''"
  shows "p = q"
  using assms tool_name_roundtrip by metis

text \<open>
  Claim C7 at a path with an underscore. The tool list publishes \<open>db_list_users\<close> for
  the path \<open>db/list_users\<close>; \<open>Execute\<close> turns the name into \<open>db/list/users\<close>, finds no
  command and answers \<open>unknown command\<close>, without any call. The paths \<open>a/b\<close> and \<open>a_b\<close>
  get the same tool name.
\<close>

theorem underscore_path_is_not_found:
  "Tool_Name (command_tool users_command) = ''db_list_users''
   \<and> map Tool_Name (buildTools users_server) = [''api_request'', ''db_list_users'']
   \<and> strings_ReplaceAll ''db_list_users'' ''_'' ''/'' = ''db/list/users''
   \<and> mcp_Execute demo_extern users_executor ''db_list_users'' Map.empty
       = (Inl ''unknown command: db_list_users'', [])
   \<and> strings_ReplaceAll ''a/b'' ''/'' ''_'' = strings_ReplaceAll ''a_b'' ''/'' ''_''"
  by (simp add: buildTools_def api_request_tool_def users_server_def tool_name_map
      users_command_def mcp_Execute_def users_executor_def strings_ReplaceAll_def)

section \<open>The read loop\<close>










section \<open>The built-in raw request tool\<close>

lemma handleAPIRequest_no_method:
  assumes "(case args ''method'' of Some (VStr m) \<Rightarrow> m = [] | _ \<Rightarrow> True)"
  shows "handleAPIRequest w s args = (Inl ''method is required'', [])"
proof -
  from assms have "(case args ''method'' of Some (VStr m) \<Rightarrow> m | _ \<Rightarrow> []) = []"
    by (simp split: option.splits val.splits)
  then show ?thesis by (simp add: handleAPIRequest_def)
qed

lemma handleAPIRequest_no_endpoint:
  assumes "args ''method'' = Some (VStr m)" and "m \<noteq> []"
    and "(case args ''endpoint'' of Some (VStr p) \<Rightarrow> p = [] | _ \<Rightarrow> True)"
  shows "handleAPIRequest w s args = (Inl ''endpoint is required'', [])"
proof -
  from assms(3) have "(case args ''endpoint'' of Some (VStr p) \<Rightarrow> p | _ \<Rightarrow> []) = []"
    by (simp split: option.splits val.splits)
  with assms(1,2) show ?thesis by (cases m) (simp_all add: handleAPIRequest_def)
qed

lemma mcp_doRequestWithCID_calls:
  assumes "ApiRequest r \<in> set (snd (mcp_doRequestWithCID w m url body token cid))"
  shows "req_method r = m \<and> req_url r = url
           \<and> req_X_CID r = (if cid = [] then None else Some cid)"
  using assms by (simp add: mcp_doRequestWithCID_def Let_def)

lemma ExecuteRaw_snd:
  "set (snd (ExecuteRaw w e m p body cid))
     \<subseteq> (case config_Load w of
           Inl err \<Rightarrow> {}
         | Inr cfg \<Rightarrow>
             set (snd (getAuthToken w cfg))
             \<union> (case fst (getAuthToken w cfg) of
                  Inl err \<Rightarrow> {}
                | Inr token \<Rightarrow>
                    set (snd (mcp_doRequestWithCID w m (exec_baseURL e @ p) body token cid))))"
  by (auto simp: ExecuteRaw_def Let_def split: sum.splits prod.splits)

lemma ExecuteRaw_calls:
  assumes "ApiRequest r \<in> set (snd (ExecuteRaw w e m p body cid))"
  shows "req_method r = m \<and> req_url r = exec_baseURL e @ p
           \<and> req_X_CID r = (if cid = [] then None else Some cid)"
proof -
  from assms ExecuteRaw_snd [of w e m p body cid]
  obtain cfg token where
    "ApiRequest r \<in> set (snd (getAuthToken w cfg))
       \<or> ApiRequest r \<in> set (snd (mcp_doRequestWithCID w m (exec_baseURL e @ p) body token cid))"
    by (auto split: sum.splits)
  with getAuthToken_calls [of r w cfg] show ?thesis
    by (auto dest: mcp_doRequestWithCID_calls)
qed

text \<open>
  Claim C9, as the code has it. \<open>handleAPIRequest\<close> checks the method and then the
  endpoint: when one of them is absent, is not a string or is empty, it fails with
  \<open>method is required\<close> or \<open>endpoint is required\<close> and makes no call. The cluster id is
  not checked: it is read as a string and is empty otherwise. With a method and an
  endpoint the handler calls \<open>ExecuteRaw\<close>, whose request goes to the base URL followed
  by the given path, with the \<open>X-CID\<close> header only for a non-empty cluster id. The
  published schema of \<open>api_request\<close> lists \<open>method\<close>, \<open>endpoint\<close> and \<open>cid\<close> as required.
\<close>

theorem api_request_checks_method_and_endpoint:
  "((case args ''method'' of Some (VStr m') \<Rightarrow> m' = [] | _ \<Rightarrow> True)
      \<longrightarrow> handleAPIRequest w s args = (Inl ''method is required'', []))
   \<and> (args ''method'' = Some (VStr m) \<and> m \<noteq> []
        \<and> (case args ''endpoint'' of Some (VStr p') \<Rightarrow> p' = [] | _ \<Rightarrow> True)
      \<longrightarrow> handleAPIRequest w s args = (Inl ''endpoint is required'', []))
   \<and> (args ''method'' = Some (VStr m) \<and> m \<noteq> []
        \<and> args ''endpoint'' = Some (VStr p) \<and> p \<noteq> []
      \<longrightarrow> handleAPIRequest w s args =
            ExecuteRaw w (srv_executor s) m p
              (case args ''body'' of Some (VMap kvs) \<Rightarrow> Some (map_of kvs) | _ \<Rightarrow> None)
              (case args ''cid'' of Some (VStr c) \<Rightarrow> c | _ \<Rightarrow> []))
   \<and> (\<forall>r. ApiRequest r \<in> set (snd (ExecuteRaw w e m p body cid))
          \<longrightarrow> req_method r = m \<and> req_url r = exec_baseURL e @ p
              \<and> req_X_CID r = (if cid = [] then None else Some cid))
   \<and> hd (buildTools s) = api_request_tool
   \<and> Tool_Name api_request_tool = ''api_request''
   \<and> Schema_Required (Tool_InputSchema api_request_tool) = [''method'', ''endpoint'', ''cid'']"
  by (intro conjI impI allI)
     (simp_all add: handleAPIRequest_no_method handleAPIRequest_no_endpoint
        handleAPIRequest_valid ExecuteRaw_calls buildTools_def api_request_tool_def)

theorem api_request_checks_method_and_endpoint_witness:
  "args_raw_no_method ''method'' = None
   \<and> handleAPIRequest demo_extern demo_server args_raw_no_method = (Inl ''method is required'', [])
   \<and> args_raw_no_endpoint ''method'' = Some (VStr ''GET'')
   \<and> args_raw_no_endpoint ''endpoint'' = None
   \<and> handleAPIRequest demo_extern demo_server args_raw_no_endpoint
       = (Inl ''endpoint is required'', [])
   \<and> args_raw_no_cid ''method'' = Some (VStr ''GET'')
   \<and> args_raw_no_cid ''endpoint'' = Some (VStr ''/v1/ping'')
   \<and> handleAPIRequest demo_extern demo_server args_raw_no_cid
       = ExecuteRaw demo_extern demo_executor ''GET'' ''/v1/ping'' None []
   \<and> ApiRequest raw_no_cid_request
       \<in> set (snd (ExecuteRaw demo_extern demo_executor ''GET'' ''/v1/ping'' None []))
   \<and> req_url raw_no_cid_request = ''http://localhost:3025/v1/ping''"
proof -
  have a: "(case args_raw_no_method ''method'' of Some (VStr m') \<Rightarrow> m' = [] | _ \<Rightarrow> True)"
    by (simp add: args_raw_no_method_def)
  have n: "args_raw_no_endpoint ''method'' = Some (VStr ''GET'') \<and> ''GET'' \<noteq> []
        \<and> (case args_raw_no_endpoint ''endpoint'' of Some (VStr p') \<Rightarrow> p' = [] | _ \<Rightarrow> True)"
    by (simp add: args_raw_no_endpoint_def)
  have b: "args_raw_no_cid ''method'' = Some (VStr ''GET'') \<and> ''GET'' \<noteq> []
        \<and> args_raw_no_cid ''endpoint'' = Some (VStr ''/v1/ping'') \<and> ''/v1/ping'' \<noteq> []"
    by (simp add: args_raw_no_cid_def)
  have c: "ApiRequest raw_no_cid_request
       \<in> set (snd (ExecuteRaw demo_extern demo_executor ''GET'' ''/v1/ping'' None []))"
    by (simp add: ExecuteRaw_def demo_getAuthToken demo_extern_fields mcp_doRequestWithCID_def
          demo_executor_def raw_no_cid_request_def demo_not_found_def demo_MarshalIndent_def)
  from api_request_checks_method_and_endpoint
         [where w = demo_extern and s = demo_server and args = args_raw_no_method,
          THEN conjunct1, rule_format, OF a]
       api_request_checks_method_and_endpoint
         [where w = demo_extern and s = demo_server and args = args_raw_no_endpoint,
          THEN conjunct2, THEN conjunct1, rule_format, OF n]
       api_request_checks_method_and_endpoint
         [where w = demo_extern and s = demo_server and args = args_raw_no_cid,
          THEN conjunct2, THEN conjunct2, THEN conjunct1, rule_format, OF b]
       api_request_checks_method_and_endpoint
         [where w = demo_extern and e = demo_executor and m = "''GET''" and p = "''/v1/ping''"
            and body = None and cid = "[]",
          THEN conjunct2, THEN conjunct2, THEN conjunct2, THEN conjunct1, rule_format, OF c]
       c
  show ?thesis
    by (simp add: args_raw_no_method_def args_raw_no_cid_def args_raw_no_endpoint_def
        demo_server_def demo_executor_def)
qed

text \<open>
  The claim as stated fails on a call without a cluster id: the handler does not reject
  it, it sends the request without the \<open>X-CID\<close> header and returns the outcome.
\<close>

theorem api_request_without_cid_is_sent:
  "args_raw_no_cid ''cid'' = None
   \<and> handleAPIRequest demo_extern demo_server args_raw_no_cid
       = (Inr demo_raw_text, [TokenRefresh ''rt'' ''key'', ApiRequest raw_no_cid_request])
   \<and> req_X_CID raw_no_cid_request = None"
  by (simp add: args_raw_no_cid_def handleAPIRequest_def ExecuteRaw_def demo_getAuthToken
        raw_no_cid_request_def demo_extern_fields demo_server_def demo_executor_def
        mcp_doRequestWithCID_def demo_not_found_def demo_MarshalIndent_def)

section \<open>Backend errors: the raw tool against the manifest tools\<close>

lemma ExecuteRaw_response:
  assumes "config_Load w = Inr cfg" and "getAuthToken w cfg = (Inr token, ev)"
    and "mcp_doRequestWithCID w m (exec_baseURL e @ p) body token cid = (Inr resp, ev2)"
    and "Body resp = Inr respBody"
    and "json_MarshalIndent w
           (VMap [(''body'', case json_Unmarshal w respBody of
                               Inl err \<Rightarrow> VStr respBody | Inr jsonResp \<Rightarrow> jsonResp),
                  (''status'', VInt (StatusCode resp)),
                  (''status_text'', VStr (Status resp))]) = Inr pretty"
  shows "ExecuteRaw w e m p body cid = (Inr pretty, ev @ ev2)"
  using assms by (simp add: ExecuteRaw_def)

lemma mcp_Execute_api_error:
  assumes "find (\<lambda>cmd. Cmd_Command cmd = strings_ReplaceAll n ''_'' ''/'')
             (Commands (exec_manifest e)) = Some cmdDef"
    and "config_Load w = Inr cfg" and "getAuthToken w cfg = (Inr token, ev)"
    and "mcp_buildEndpoint w e (Cmd_Endpoint cmdDef) args cmdDef = Inr url"
    and "mcp_doRequest w (Cmd_Method cmdDef) url (buildBody args cmdDef) token = (Inr resp, ev2)"
    and "Body resp = Inr respBody"
    and "StatusCode resp \<ge> 400"
  shows "mcp_Execute w e n args = (Inl (api_error (StatusCode resp) respBody), ev @ ev2)"
  using assms by (simp add: mcp_Execute_def)

text \<open>
  Claim C10. When \<open>api_request\<close> gets a response whose body can be read, the tool call
  answers with a result that is not flagged as an error, whatever the status code; its
  text is the indented JSON of the map with the keys \<open>status\<close> (the status code),
  \<open>status_text\<close> (the status line) and \<open>body\<close> (the decoded body, or the raw body when it
  is not JSON). When a manifest tool gets a response with status 400 or more, the tool
  call answers with an error-flagged result whose text is \<open>API error (code): body\<close>.
\<close>

theorem raw_tool_keeps_http_errors:
  "(json_Unmarshal_CallToolParams w (Req_Params req) = Inr params
      \<and> Params_Name params = ''api_request''
      \<and> Params_Arguments params ''method'' = Some (VStr m) \<and> m \<noteq> []
      \<and> Params_Arguments params ''endpoint'' = Some (VStr p) \<and> p \<noteq> []
      \<and> config_Load w = Inr cfg \<and> getAuthToken w cfg = (Inr token, ev)
      \<and> mcp_doRequestWithCID w m (exec_baseURL (srv_executor s) @ p)
            (case Params_Arguments params ''body'' of
               Some (VMap kvs) \<Rightarrow> Some (map_of kvs) | _ \<Rightarrow> None)
            token
            (case Params_Arguments params ''cid'' of Some (VStr c) \<Rightarrow> c | _ \<Rightarrow> [])
          = (Inr resp, ev2)
      \<and> Body resp = Inr respBody
      \<and> json_MarshalIndent w
            (VMap [(''body'', case json_Unmarshal w respBody of
                                Inl err \<Rightarrow> VStr respBody | Inr jsonResp \<Rightarrow> jsonResp),
                   (''status'', VInt (StatusCode resp)),
                   (''status_text'', VStr (Status resp))]) = Inr pretty
    \<longrightarrow> fst (handleToolsCall w s req) =
          \<lparr> Resp_JSONRPC = ''2.0'', Resp_ID = Req_ID req,
            Resp_Result = Some (CallTool_Result
              \<lparr> Content = [\<lparr> Block_Type = ''text'', Block_Text = pretty \<rparr>], IsError = False \<rparr>),
            Resp_Error = None \<rparr>)
   \<and> (json_Unmarshal_CallToolParams w (Req_Params req) = Inr params
      \<and> Params_Name params \<noteq> ''api_request''
      \<and> find (\<lambda>cmd. Cmd_Command cmd = strings_ReplaceAll (Params_Name params) ''_'' ''/'')
            (Commands (exec_manifest (srv_executor s))) = Some cmdDef
      \<and> config_Load w = Inr cfg \<and> getAuthToken w cfg = (Inr token, ev)
      \<and> mcp_buildEndpoint w (srv_executor s) (Cmd_Endpoint cmdDef)
            (Params_Arguments params) cmdDef = Inr url
      \<and> mcp_doRequest w (Cmd_Method cmdDef) url
            (buildBody (Params_Arguments params) cmdDef) token = (Inr resp, ev2)
      \<and> Body resp = Inr respBody
      \<and> StatusCode resp \<ge> 400
    \<longrightarrow> fst (handleToolsCall w s req) =
          \<lparr> Resp_JSONRPC = ''2.0'', Resp_ID = Req_ID req,
            Resp_Result = Some (CallTool_Result
              \<lparr> Content = [\<lparr> Block_Type = ''text'',
                             Block_Text = ''API error ('' @ strconv_Itoa (StatusCode resp)
                                          @ ''): '' @ respBody \<rparr>],
                IsError = True \<rparr>),
            Resp_Error = None \<rparr>)"
proof (intro conjI impI)
  assume a: "json_Unmarshal_CallToolParams w (Req_Params req) = Inr params
      \<and> Params_Name params = ''api_request''
      \<and> Params_Arguments params ''method'' = Some (VStr m) \<and> m \<noteq> []
      \<and> Params_Arguments params ''endpoint'' = Some (VStr p) \<and> p \<noteq> []
      \<and> config_Load w = Inr cfg \<and> getAuthToken w cfg = (Inr token, ev)
      \<and> mcp_doRequestWithCID w m (exec_baseURL (srv_executor s) @ p)
            (case Params_Arguments params ''body'' of
               Some (VMap kvs) \<Rightarrow> Some (map_of kvs) | _ \<Rightarrow> None)
            token
            (case Params_Arguments params ''cid'' of Some (VStr c) \<Rightarrow> c | _ \<Rightarrow> [])
          = (Inr resp, ev2)
      \<and> Body resp = Inr respBody
      \<and> json_MarshalIndent w
            (VMap [(''body'', case json_Unmarshal w respBody of
                                Inl err \<Rightarrow> VStr respBody | Inr jsonResp \<Rightarrow> jsonResp),
                   (''status'', VInt (StatusCode resp)),
                   (''status_text'', VStr (Status resp))]) = Inr pretty"
  then have "handleAPIRequest w s (Params_Arguments params) = (Inr pretty, ev @ ev2)"
    by (simp add: handleAPIRequest_valid ExecuteRaw_response)
  with a show "fst (handleToolsCall w s req) =
          \<lparr> Resp_JSONRPC = ''2.0'', Resp_ID = Req_ID req,
            Resp_Result = Some (CallTool_Result
              \<lparr> Content = [\<lparr> Block_Type = ''text'', Block_Text = pretty \<rparr>], IsError = False \<rparr>),
            Resp_Error = None \<rparr>"
    by (simp add: handleToolsCall_def call_result_def)
next
  assume a: "json_Unmarshal_CallToolParams w (Req_Params req) = Inr params
      \<and> Params_Name params \<noteq> ''api_request''
      \<and> find (\<lambda>cmd. Cmd_Command cmd = strings_ReplaceAll (Params_Name params) ''_'' ''/'')
            (Commands (exec_manifest (srv_executor s))) = Some cmdDef
      \<and> config_Load w = Inr cfg \<and> getAuthToken w cfg = (Inr token, ev)
      \<and> mcp_buildEndpoint w (srv_executor s) (Cmd_Endpoint cmdDef)
            (Params_Arguments params) cmdDef = Inr url
      \<and> mcp_doRequest w (Cmd_Method cmdDef) url
            (buildBody (Params_Arguments params) cmdDef) token = (Inr resp, ev2)
      \<and> Body resp = Inr respBody
      \<and> StatusCode resp \<ge> 400"
  then have "mcp_Execute w (srv_executor s) (Params_Name params) (Params_Arguments params)
               = (Inl (api_error (StatusCode resp) respBody), ev @ ev2)"
    by (intro mcp_Execute_api_error [where cfg = cfg and token = token and url = url]) blast+
  with a show "fst (handleToolsCall w s req) =
          \<lparr> Resp_JSONRPC = ''2.0'', Resp_ID = Req_ID req,
            Resp_Result = Some (CallTool_Result
              \<lparr> Content = [\<lparr> Block_Type = ''text'',
                             Block_Text = ''API error ('' @ strconv_Itoa (StatusCode resp)
                                          @ ''): '' @ respBody \<rparr>],
                IsError = True \<rparr>),
            Resp_Error = None \<rparr>"
    by (simp add: handleToolsCall_def call_result_def api_error_def)
qed

theorem raw_tool_keeps_http_errors_witness:
  "StatusCode demo_not_found \<ge> 400
   \<and> fst (handleToolsCall demo_extern demo_server (call_request params_raw_no_cid))
       = \<lparr> Resp_JSONRPC = ''2.0'', Resp_ID = VFloat float_7,
           Resp_Result = Some (CallTool_Result
             \<lparr> Content = [\<lparr> Block_Type = ''text'', Block_Text = demo_raw_text \<rparr>],
               IsError = False \<rparr>),
           Resp_Error = None \<rparr>
   \<and> fst (handleToolsCall demo_extern demo_server (call_request params_status))
       = \<lparr> Resp_JSONRPC = ''2.0'', Resp_ID = VFloat float_7,
           Resp_Result = Some (CallTool_Result
             \<lparr> Content = [\<lparr> Block_Type = ''text'', Block_Text = ''API error (404): nope'' \<rparr>],
               IsError = True \<rparr>),
           Resp_Error = None \<rparr>"
proof -
  have digits: "strconv_Itoa 404 = ''404''"
    by (simp add: strconv_Itoa_def nat_digits.simps)
  have raw: "json_Unmarshal_CallToolParams demo_extern (Req_Params (call_request params_raw_no_cid))
        = Inr \<lparr> Params_Name = ''api_request'', Params_Arguments = args_raw_no_cid \<rparr>
      \<and> Params_Name \<lparr> Params_Name = ''api_request'', Params_Arguments = args_raw_no_cid \<rparr>
          = ''api_request''
      \<and> Params_Arguments \<lparr> Params_Name = ''api_request'', Params_Arguments = args_raw_no_cid \<rparr>
          ''method'' = Some (VStr ''GET'') \<and> ''GET'' \<noteq> []
      \<and> Params_Arguments \<lparr> Params_Name = ''api_request'', Params_Arguments = args_raw_no_cid \<rparr>
          ''endpoint'' = Some (VStr ''/v1/ping'') \<and> ''/v1/ping'' \<noteq> []
      \<and> config_Load demo_extern = Inr demo_config
      \<and> getAuthToken demo_extern demo_config = (Inr ''tok'', [TokenRefresh ''rt'' ''key''])
      \<and> mcp_doRequestWithCID demo_extern ''GET''
            (exec_baseURL (srv_executor demo_server) @ ''/v1/ping'')
            (case Params_Arguments
                    \<lparr> Params_Name = ''api_request'', Params_Arguments = args_raw_no_cid \<rparr> ''body'' of
               Some (VMap kvs) \<Rightarrow> Some (map_of kvs) | _ \<Rightarrow> None)
            ''tok''
            (case Params_Arguments
                    \<lparr> Params_Name = ''api_request'', Params_Arguments = args_raw_no_cid \<rparr> ''cid'' of
               Some (VStr c) \<Rightarrow> c | _ \<Rightarrow> [])
          = (Inr demo_not_found, [ApiRequest raw_no_cid_request])
      \<and> Body demo_not_found = Inr ''nope''
      \<and> json_MarshalIndent demo_extern
            (VMap [(''body'', case json_Unmarshal demo_extern ''nope'' of
                                Inl err \<Rightarrow> VStr ''nope'' | Inr jsonResp \<Rightarrow> jsonResp),
                   (''status'', VInt (StatusCode demo_not_found)),
                   (''status_text'', VStr (Status demo_not_found))]) = Inr demo_raw_text"
    by (simp add: demo_getAuthToken)
       (simp add: demo_extern_def demo_Unmarshal_CallToolParams_def call_request_def
          params_raw_no_cid_def params_unknown_def args_raw_no_cid_def demo_server_def
          demo_executor_def mcp_doRequestWithCID_def raw_no_cid_request_def demo_not_found_def
          demo_MarshalIndent_def)
  have tool: "json_Unmarshal_CallToolParams demo_extern (Req_Params (call_request params_status))
        = Inr \<lparr> Params_Name = ''status'', Params_Arguments = Map.empty \<rparr>
      \<and> Params_Name \<lparr> Params_Name = ''status'', Params_Arguments = Map.empty \<rparr> \<noteq> ''api_request''
      \<and> find (\<lambda>cmd. Cmd_Command cmd
                 = strings_ReplaceAll
                     (Params_Name \<lparr> Params_Name = ''status'', Params_Arguments = Map.empty \<rparr>)
                     ''_'' ''/'')
            (Commands (exec_manifest (srv_executor demo_server))) = Some status_command
      \<and> config_Load demo_extern = Inr demo_config
      \<and> getAuthToken demo_extern demo_config = (Inr ''tok'', [TokenRefresh ''rt'' ''key''])
      \<and> mcp_buildEndpoint demo_extern (srv_executor demo_server) (Cmd_Endpoint status_command)
            (Params_Arguments \<lparr> Params_Name = ''status'', Params_Arguments = Map.empty \<rparr>)
            status_command = Inr ''http://localhost:3025/v1/clusters/c1/status''
      \<and> mcp_doRequest demo_extern (Cmd_Method status_command)
            ''http://localhost:3025/v1/clusters/c1/status''
            (buildBody (Params_Arguments \<lparr> Params_Name = ''status'', Params_Arguments = Map.empty \<rparr>)
               status_command) ''tok''
          = (Inr demo_not_found, [ApiRequest status_request])
      \<and> Body demo_not_found = Inr ''nope''
      \<and> StatusCode demo_not_found \<ge> 400"
    by (simp add: demo_getAuthToken demo_server_def demo_status_endpoint [simplified]
          status_command_def [THEN arg_cong, of Cmd_Endpoint])
       (simp add: demo_extern_def demo_Unmarshal_CallToolParams_def call_request_def
          params_status_def params_unknown_def params_raw_no_cid_def params_raw_no_method_def
          demo_executor_def demo_manifest_def status_command_def strings_ReplaceAll_def
          mcp_doRequest_def mcp_doRequestWithCID_def buildBody_def status_request_def
          demo_not_found_def)
  from raw_tool_keeps_http_errors
         [where w = demo_extern and s = demo_server and req = "call_request params_raw_no_cid"
            and resp = demo_not_found, THEN conjunct1, rule_format, OF raw]
       raw_tool_keeps_http_errors
         [where w = demo_extern and s = demo_server and req = "call_request params_status"
            and resp = demo_not_found, THEN conjunct2, rule_format, OF tool]
  show ?thesis
    by (simp add: call_request_def digits demo_not_found_def)
qed

end
